theory Spec2Isabelle
  imports Complex_Main
begin

section \<open>Data model\<close>

text \<open>
  The module \<^verbatim>\<open>Supp.py\<close> works on numpy arrays of floating point numbers. An array is
  modelled by its shape and its entries; the entries are real numbers, so rounding is
  not modelled, and a division or a modulo by zero (which numpy answers with inf or nan
  and a warning) has the value HOL gives it: the theorems about values assume non-zero
  divisors. A one-dimensional array is \<open>Vec xs\<close>; a two-dimensional array of shape
  \<open>(length rows, c)\<close> is \<open>Mat c rows\<close>, a list of rows that have \<open>c\<close> entries each.

  Arrays are objects: a Python variable holds a reference, two variables may hold the same
  one, and an assignment to an element or a slice changes the object for everybody who
  holds it. So arrays live in a store, a list of arrays, and a reference is an index of
  that list. An assignment \<^verbatim>\<open>v = <expression>\<close> of a new array allocates a cell; the
  temporaries inside an expression are values.
\<close>

datatype error = IndexError | ValueError | NameError | TypeError | AxisError
  | TypingError | NotANumber | Unsupported | InvalidReference

text \<open>The element type of an array. Only two things in this module depend on it: an
  assignment into an array converts the value to the array's element type, and an array
  used as an index must hold integers.\<close>

datatype dtype = int64 | float64

datatype ndarray = Vec dtype "real list" | Mat dtype nat "real list list"

type_synonym addr = nat

record state =
  heap :: "ndarray list"
  stdout :: "string list"

type_synonym 'a run = "state \<Rightarrow> (error + 'a) \<times> state"

definition st_return :: "'a \<Rightarrow> 'a run" where
  "st_return x = (\<lambda>s. (Inr x, s))"

definition st_raise :: "error \<Rightarrow> 'a run" where
  "st_raise e = (\<lambda>s. (Inl e, s))"

definition st_bind :: "'a run \<Rightarrow> ('a \<Rightarrow> 'b run) \<Rightarrow> 'b run" where
  "st_bind m k = (\<lambda>s. case m s of (Inl e, s') \<Rightarrow> (Inl e, s') | (Inr x, s') \<Rightarrow> k x s')"

definition st_lift :: "error + 'a \<Rightarrow> 'a run" where
  "st_lift r = (\<lambda>s. (r, s))"

text \<open>A new array object. Its reference is the next free index of the store.\<close>

definition st_alloc :: "ndarray \<Rightarrow> addr run" where
  "st_alloc a = (\<lambda>s. (Inr (length (heap s)), s\<lparr>heap := heap s @ [a]\<rparr>))"

text \<open>Reading through a reference. A reference that points nowhere does not exist in
  Python; the model answers \<open>InvalidReference\<close>.\<close>

definition st_get :: "addr \<Rightarrow> ndarray run" where
  "st_get a = (\<lambda>s. if a < length (heap s) then (Inr (heap s ! a), s)
                     else (Inl InvalidReference, s))"

text \<open>Overwriting the object behind a reference: every holder of the reference sees it.\<close>

definition st_put :: "addr \<Rightarrow> ndarray \<Rightarrow> unit run" where
  "st_put a v = (\<lambda>s. if a < length (heap s) then (Inr (), s\<lparr>heap := (heap s)[a := v]\<rparr>)
                       else (Inl InvalidReference, s))"

definition st_print :: "string \<Rightarrow> unit run" where
  "st_print msg = (\<lambda>s. (Inr (), s\<lparr>stdout := stdout s @ [msg]\<rparr>))"

text \<open>\<^verbatim>\<open>for i in range(n): body\<close>\<close>

fun st_for :: "nat list \<Rightarrow> (nat \<Rightarrow> unit run) \<Rightarrow> unit run" where
  "st_for [] body = st_return ()"
| "st_for (i # rest) body = st_bind (body i) (\<lambda>_. st_for rest body)"

section \<open>numpy: element-wise operations with broadcasting\<close>

definition err_bind :: "error + 'a \<Rightarrow> ('a \<Rightarrow> error + 'b) \<Rightarrow> error + 'b" where
  "err_bind r k = (case r of Inl e \<Rightarrow> Inl e | Inr x \<Rightarrow> k x)"

fun err_map :: "('a \<Rightarrow> error + 'b) \<Rightarrow> 'a list \<Rightarrow> error + 'b list" where
  "err_map f [] = Inr []"
| "err_map f (x # xs) = err_bind (f x) (\<lambda>y. err_bind (err_map f xs) (\<lambda>ys. Inr (y # ys)))"

text \<open>Two axes of sizes \<open>m\<close> and \<open>n\<close> are compatible when they are equal or one of them
  is 1; anything else is numpy's ValueError (operands could not be broadcast together).\<close>

definition bdim :: "nat \<Rightarrow> nat \<Rightarrow> error + nat" where
  "bdim m n = (if m = n then Inr m else if m = 1 then Inr n else if n = 1 then Inr m
               else Inl ValueError)"

definition stretch :: "nat \<Rightarrow> 'a list \<Rightarrow> 'a list" where
  "stretch n xs = (case xs of [x] \<Rightarrow> replicate n x | _ \<Rightarrow> xs)"

definition vop :: "(real \<Rightarrow> real \<Rightarrow> real) \<Rightarrow> real list \<Rightarrow> real list \<Rightarrow> error + real list" where
  "vop f a b = err_bind (bdim (length a) (length b))
                 (\<lambda>n. Inr (map2 f (stretch n a) (stretch n b)))"

definition mop :: "(real \<Rightarrow> real \<Rightarrow> real) \<Rightarrow> nat \<Rightarrow> real list list \<Rightarrow> nat \<Rightarrow> real list list
                     \<Rightarrow> error + nat \<times> real list list" where
  "mop f c1 A c2 B =
     err_bind (bdim (length A) (length B)) (\<lambda>r.
     err_bind (bdim c1 c2) (\<lambda>c.
       Inr (c, map2 (\<lambda>ra rb. map2 f (stretch c ra) (stretch c rb))
                    (stretch r A) (stretch r B))))"

text \<open>The element type of the result of an operator on two arrays. The scalars of this
  module are floats, so an operator with a scalar operand gives \<open>float64\<close>.\<close>

fun join_dtype :: "dtype \<Rightarrow> dtype \<Rightarrow> dtype" where
  "join_dtype int64 int64 = int64"
| "join_dtype _ _ = float64"

text \<open>A binary operator on two arrays. A one-dimensional operand meets a two-dimensional
  one as a single row.\<close>

fun nd_op :: "(real \<Rightarrow> real \<Rightarrow> real) \<Rightarrow> ndarray \<Rightarrow> ndarray \<Rightarrow> error + ndarray" where
  "nd_op f (Vec d1 a) (Vec d2 b) = err_bind (vop f a b) (\<lambda>r. Inr (Vec (join_dtype d1 d2) r))"
| "nd_op f (Mat d1 c1 A) (Mat d2 c2 B) =
     err_bind (mop f c1 A c2 B) (\<lambda>(c, R). Inr (Mat (join_dtype d1 d2) c R))"
| "nd_op f (Mat d1 c1 A) (Vec d2 b) =
     err_bind (mop f c1 A (length b) [b]) (\<lambda>(c, R). Inr (Mat (join_dtype d1 d2) c R))"
| "nd_op f (Vec d1 a) (Mat d2 c2 B) =
     err_bind (mop f (length a) [a] c2 B) (\<lambda>(c, R). Inr (Mat (join_dtype d1 d2) c R))"

text \<open>A function of one entry and float scalars (\<^verbatim>\<open>L - d\<close>, \<^verbatim>\<open>a % L\<close>,
  \<^verbatim>\<open>np.floor(p/dx + 1)\<close>) applied to every entry; the result is \<open>float64\<close>.\<close>

fun nd_map :: "(real \<Rightarrow> real) \<Rightarrow> ndarray \<Rightarrow> ndarray" where
  "nd_map f (Vec d a) = Vec float64 (map f a)"
| "nd_map f (Mat d c A) = Mat float64 c (map (map f) A)"

fun nd_dtype :: "ndarray \<Rightarrow> dtype" where
  "nd_dtype (Vec d a) = d"
| "nd_dtype (Mat d c A) = d"

fun retag :: "dtype \<Rightarrow> ndarray \<Rightarrow> ndarray" where
  "retag d (Vec d' a) = Vec d a"
| "retag d (Mat d' c A) = Mat d c A"

text \<open>The entries of an array, row after row.\<close>

fun nd_values :: "ndarray \<Rightarrow> real list" where
  "nd_values (Vec d a) = a"
| "nd_values (Mat d c A) = concat A"

text \<open>The arrays numpy can build: every row of a two-dimensional array has the length
  the shape says.\<close>

fun wf_array :: "ndarray \<Rightarrow> bool" where
  "wf_array (Vec d a) = True"
| "wf_array (Mat d c A) = list_all (\<lambda>r. length r = c) A"

text \<open>Conversion of a float to an integer type cuts the fraction off (towards zero). An
  assignment into an array converts to the array's element type.\<close>

definition py_trunc :: "real \<Rightarrow> int" where
  "py_trunc v = (if 0 \<le> v then \<lfloor>v\<rfloor> else \<lceil>v\<rceil>)"

text \<open>A float outside the range of \<open>int64\<close> is converted to \<open>-2^63\<close>, the value the
  conversion gives on x86-64 (numpy warns of an invalid value).\<close>

definition to_int64 :: "real \<Rightarrow> int" where
  "to_int64 v = (let t = py_trunc v in if - (2 ^ 63) \<le> t \<and> t < 2 ^ 63 then t else - (2 ^ 63))"

definition cast :: "dtype \<Rightarrow> real \<Rightarrow> real" where
  "cast d v = (case d of int64 \<Rightarrow> of_int (to_int64 v) | float64 \<Rightarrow> v)"

text \<open>\<^verbatim>\<open>a.astype('int')\<close>: a new array.\<close>

fun nd_astype_int :: "ndarray \<Rightarrow> ndarray" where
  "nd_astype_int (Vec d a) = Vec int64 (map (cast int64) a)"
| "nd_astype_int (Mat d c A) = Mat int64 c (map (map (cast int64)) A)"

text \<open>\<^verbatim>\<open>a % n\<close> on floats: the result has the sign of the divisor.\<close>

definition np_mod :: "real \<Rightarrow> real \<Rightarrow> real" where
  "np_mod a n = a - n * of_int \<lfloor>a / n\<rfloor>"

text \<open>\<^verbatim>\<open>sqrt\<close> in a function that numba compiles (\<^verbatim>\<open>@jit\<close>): on a negative argument it
  does not raise, it gives nan, and the function goes on with it. The reals have no nan:
  the model stops there with \<open>NotANumber\<close>.\<close>

definition jit_sqrt :: "real \<Rightarrow> error + real" where
  "jit_sqrt v = (if v < 0 then Inl NotANumber else Inr (sqrt v))"

section \<open>numpy: indexing, slices and shapes\<close>

text \<open>An index \<open>i\<close> on an axis of size \<open>n\<close>: a negative index counts from the end, and an
  index outside \<open>-n \<dots> n-1\<close> is an IndexError.\<close>

definition py_index :: "nat \<Rightarrow> int \<Rightarrow> error + nat" where
  "py_index n i = (if 0 \<le> i \<and> i < int n then Inr (nat i)
                   else if i < 0 \<and> - int n \<le> i then Inr (nat (i + int n))
                   else Inl IndexError)"

text \<open>A slice \<^verbatim>\<open>lo:hi\<close> never fails: its bounds are counted from the end when negative
  and cut to the axis.\<close>

definition slice_bound :: "nat \<Rightarrow> int \<Rightarrow> nat" where
  "slice_bound n i = (if i < 0 then nat (max 0 (i + int n)) else min (nat i) n)"

definition py_slice :: "int \<Rightarrow> int \<Rightarrow> 'a list \<Rightarrow> 'a list" where
  "py_slice lo hi xs =
     (let n = length xs; a = slice_bound n lo; b = slice_bound n hi
      in take (b - a) (drop a xs))"

text \<open>\<^verbatim>\<open>a.shape[0]\<close>, and \<^verbatim>\<open>row,col = a.shape\<close> in a function that numba compiles: for
  an array with one axis the compilation fails with numba's TypingError.\<close>

fun shape0 :: "ndarray \<Rightarrow> nat" where
  "shape0 (Vec d a) = length a"
| "shape0 (Mat d c A) = length A"

fun shape2 :: "ndarray \<Rightarrow> error + nat \<times> nat" where
  "shape2 (Vec d a) = Inl TypingError"
| "shape2 (Mat d c A) = Inr (length A, c)"

text \<open>\<^verbatim>\<open>a[:,j]\<close> and \<^verbatim>\<open>a[i,:]\<close>: with two indices on a one-dimensional array numpy
  raises IndexError (too many indices).\<close>

fun get_col :: "ndarray \<Rightarrow> int \<Rightarrow> error + real list" where
  "get_col (Vec d a) j = Inl IndexError"
| "get_col (Mat d c A) j = err_bind (py_index c j) (\<lambda>k. Inr (map (\<lambda>r. r ! k) A))"

fun get_row :: "ndarray \<Rightarrow> int \<Rightarrow> error + real list" where
  "get_row (Vec d a) i = Inl IndexError"
| "get_row (Mat d c A) i = err_bind (py_index (length A) i) (\<lambda>k. Inr (A ! k))"

text \<open>\<^verbatim>\<open>a[:,lo:hi]\<close> and \<^verbatim>\<open>a[lo:hi,:]\<close>, as the number of columns and the rows.\<close>

fun get_col_slice :: "ndarray \<Rightarrow> int \<Rightarrow> int \<Rightarrow> error + nat \<times> real list list" where
  "get_col_slice (Vec d a) lo hi = Inl IndexError"
| "get_col_slice (Mat d c A) lo hi =
     Inr (slice_bound c hi - slice_bound c lo, map (py_slice lo hi) A)"

fun get_row_slice :: "ndarray \<Rightarrow> int \<Rightarrow> int \<Rightarrow> error + nat \<times> real list list" where
  "get_row_slice (Vec d a) lo hi = Inl IndexError"
| "get_row_slice (Mat d c A) lo hi = Inr (c, py_slice lo hi A)"

text \<open>\<^verbatim>\<open>a[ii,jj]\<close>, one entry.\<close>

fun get_entry :: "ndarray \<Rightarrow> int \<Rightarrow> int \<Rightarrow> error + real" where
  "get_entry (Vec d a) i j = Inl IndexError"
| "get_entry (Mat d c A) i j =
     err_bind (py_index (length A) i) (\<lambda>k. err_bind (py_index c j) (\<lambda>l. Inr (A ! k ! l)))"

text \<open>\<^verbatim>\<open>a[i]\<close> of a one-dimensional array, one entry.\<close>

fun get_item :: "ndarray \<Rightarrow> int \<Rightarrow> error + real" where
  "get_item (Vec d a) i = err_bind (py_index (length a) i) (\<lambda>k. Inr (a ! k))"
| "get_item (Mat d c A) i = Inl Unsupported"

text \<open>A value assigned to a part of an array of \<open>n\<close> entries along an axis must have
  \<open>n\<close> entries there, or one, which is repeated; otherwise ValueError.\<close>

definition fit :: "nat \<Rightarrow> 'a list \<Rightarrow> error + 'a list" where
  "fit n xs = (if length xs = n then Inr xs
               else case xs of [x] \<Rightarrow> Inr (replicate n x) | _ \<Rightarrow> Inl ValueError)"

text \<open>\<^verbatim>\<open>a[:,j] = v\<close>, \<^verbatim>\<open>a[i,:] = v\<close>, \<^verbatim>\<open>a[:,lo:hi] = M\<close>, \<^verbatim>\<open>a[lo:hi,:] = M\<close> and
  \<^verbatim>\<open>a[i,j] = v\<close>, as the new value of the array \<open>a\<close>.\<close>

fun set_col :: "ndarray \<Rightarrow> int \<Rightarrow> real list \<Rightarrow> error + ndarray" where
  "set_col (Vec d a) j v = Inl IndexError"
| "set_col (Mat d c A) j v =
     err_bind (py_index c j) (\<lambda>k.
     err_bind (fit (length A) v) (\<lambda>w.
       Inr (Mat d c (map2 (\<lambda>r x. r[k := cast d x]) A w))))"

fun set_row :: "ndarray \<Rightarrow> int \<Rightarrow> real list \<Rightarrow> error + ndarray" where
  "set_row (Vec d a) i v = Inl IndexError"
| "set_row (Mat d c A) i v =
     err_bind (py_index (length A) i) (\<lambda>k.
     err_bind (fit c v) (\<lambda>w.
       Inr (Mat d c (A[k := map (cast d) w]))))"

fun set_col_slice :: "ndarray \<Rightarrow> int \<Rightarrow> int \<Rightarrow> nat \<times> real list list \<Rightarrow> error + ndarray" where
  "set_col_slice (Vec d a) lo hi M = Inl IndexError"
| "set_col_slice (Mat d c A) lo hi M =
     (let a = slice_bound c lo; w = slice_bound c hi - a in
      if fst M \<noteq> w \<and> fst M \<noteq> 1 then Inl ValueError
      else err_bind (fit (length A) (snd M)) (\<lambda>rows.
        Inr (Mat d c (map2 (\<lambda>r v. take a r @ map (cast d) (stretch w v) @ drop (a + w) r)
                           A rows))))"

fun set_row_slice :: "ndarray \<Rightarrow> int \<Rightarrow> int \<Rightarrow> nat \<times> real list list \<Rightarrow> error + ndarray" where
  "set_row_slice (Vec d a) lo hi M = Inl IndexError"
| "set_row_slice (Mat d c A) lo hi M =
     (let a = slice_bound (length A) lo; w = slice_bound (length A) hi - a in
      if fst M \<noteq> c \<and> fst M \<noteq> 1 then Inl ValueError
      else err_bind (fit w (snd M)) (\<lambda>rows.
        Inr (Mat d c (take a A @ map (\<lambda>v. map (cast d) (stretch c v)) rows @ drop (a + w) A))))"

fun set_entry :: "ndarray \<Rightarrow> int \<Rightarrow> int \<Rightarrow> real \<Rightarrow> error + ndarray" where
  "set_entry (Vec d a) i j v = Inl IndexError"
| "set_entry (Mat d c A) i j v =
     err_bind (py_index (length A) i) (\<lambda>k. err_bind (py_index c j) (\<lambda>l.
       Inr (Mat d c (A[k := (A ! k)[l := cast d v]]))))"

text \<open>\<^verbatim>\<open>np.zeros((n,m))\<close>\<close>

definition np_zeros :: "nat \<Rightarrow> nat \<Rightarrow> ndarray" where
  "np_zeros n m = Mat float64 m (replicate n (replicate m 0))"

text \<open>\<^verbatim>\<open>np.tile(a,(m,n))\<close>: \<open>m\<close> copies of \<open>a\<close> below each other, \<open>n\<close> beside each other.\<close>

fun np_tile :: "ndarray \<Rightarrow> nat \<Rightarrow> nat \<Rightarrow> ndarray" where
  "np_tile (Vec d a) m n = Mat d (n * length a) (replicate m (concat (replicate n a)))"
| "np_tile (Mat d c A) m n =
     Mat d (n * c) (concat (replicate m (map (\<lambda>r. concat (replicate n r)) A)))"

text \<open>\<^verbatim>\<open>a.T\<close>\<close>

fun np_transpose :: "ndarray \<Rightarrow> ndarray" where
  "np_transpose (Vec d a) = Vec d a"
| "np_transpose (Mat d c A) = Mat d (length A) (map (\<lambda>j. map (\<lambda>r. r ! j) A) [0..<c])"

text \<open>\<^verbatim>\<open>np.repeat(a,n,axis=1)\<close>: every entry \<open>n\<close> times, along the rows. A one-dimensional
  array has no axis 1.\<close>

fun np_repeat_axis1 :: "ndarray \<Rightarrow> nat \<Rightarrow> error + ndarray" where
  "np_repeat_axis1 (Vec d a) n = Inl AxisError"
| "np_repeat_axis1 (Mat d c A) n = Inr (Mat d (c * n) (map (\<lambda>r. concat (map (replicate n) r)) A))"

text \<open>\<^verbatim>\<open>a.sum(1)\<close>: the sum of every row.\<close>

fun np_sum_axis1 :: "ndarray \<Rightarrow> error + ndarray" where
  "np_sum_axis1 (Vec d a) = Inl AxisError"
| "np_sum_axis1 (Mat d c A) = Inr (Vec d (map sum_list A))"

text \<open>An array of indices must hold integers (IndexError otherwise). Its entries are
  brought into \<open>0 \<dots> n-1\<close> for an axis of size \<open>n\<close>.\<close>

fun index_array :: "nat \<Rightarrow> ndarray \<Rightarrow> error + ndarray" where
  "index_array n (Vec d a) =
     (if d = float64 then Inl IndexError
      else err_bind (err_map (\<lambda>v. py_index n (py_trunc v)) a) (\<lambda>ks. Inr (Vec int64 (map real ks))))"
| "index_array n (Mat d c A) =
     (if d = float64 then Inl IndexError
      else err_bind (err_map (err_map (\<lambda>v. py_index n (py_trunc v))) A)
             (\<lambda>K. Inr (Mat int64 c (map (map real) K))))"

text \<open>\<^verbatim>\<open>x[inds]\<close> for a one-dimensional \<open>x\<close>: the result has the shape of \<open>inds\<close>. For a
  two-dimensional \<open>x\<close> and a two-dimensional \<open>inds\<close> numpy builds an array of three axes,
  which this model does not have.\<close>

fun take_fancy :: "ndarray \<Rightarrow> ndarray \<Rightarrow> error + ndarray" where
  "take_fancy (Vec d a) inds =
     err_bind (index_array (length a) inds) (\<lambda>K. Inr (retag d (nd_map (\<lambda>k. a ! nat \<lfloor>k\<rfloor>) K)))"
| "take_fancy (Mat d c A) inds = Inl Unsupported"

text \<open>\<^verbatim>\<open>u[yInds,xInds]\<close>: the index arrays are broadcast against each other (a mismatch of
  their shapes is an IndexError), and the result has their common shape.\<close>

fun take_fancy2 :: "ndarray \<Rightarrow> ndarray \<Rightarrow> ndarray \<Rightarrow> error + ndarray" where
  "take_fancy2 (Vec d a) yInds xInds = Inl IndexError"
| "take_fancy2 (Mat d c A) yInds xInds =
     err_bind (index_array (length A) yInds) (\<lambda>Ky.
     err_bind (index_array c xInds) (\<lambda>Kx.
       case nd_op (\<lambda>i j. A ! nat \<lfloor>i\<rfloor> ! nat \<lfloor>j\<rfloor>) Ky Kx of
         Inl e \<Rightarrow> Inl IndexError
       | Inr r \<Rightarrow> Inr (retag d r)))"

text \<open>\<^verbatim>\<open>F[ids,j]\<close>: the entries of column \<open>j\<close> in the rows \<open>ids\<close>, where \<open>ids\<close> is a
  one-dimensional array with element type \<open>d\<close>.\<close>

fun take_rows_col :: "ndarray \<Rightarrow> dtype \<Rightarrow> real list \<Rightarrow> int \<Rightarrow> error + real list" where
  "take_rows_col (Vec d' a) d ids j = Inl IndexError"
| "take_rows_col (Mat d' c A) d ids j =
     (if d = float64 then Inl IndexError
      else err_bind (err_map (\<lambda>v. py_index (length A) (py_trunc v)) ids) (\<lambda>ks.
           err_bind (py_index c j) (\<lambda>l. Inr (map (\<lambda>k. A ! k ! l) ks))))"

text \<open>\<^verbatim>\<open>np.array(a[:,(j1,j2)])\<close>: two columns, as a new array.\<close>

fun take_cols2 :: "ndarray \<Rightarrow> int \<Rightarrow> int \<Rightarrow> error + ndarray" where
  "take_cols2 (Vec d a) j1 j2 = Inl IndexError"
| "take_cols2 (Mat d c A) j1 j2 =
     err_bind (py_index c j1) (\<lambda>k1. err_bind (py_index c j2) (\<lambda>k2.
       Inr (Mat d 2 (map (\<lambda>r. [r ! k1, r ! k2]) A))))"

text \<open>Statements on arrays in the store: an assignment to a part of an array, and
  \<^verbatim>\<open>a += b\<close>, change the array in place. \<^verbatim>\<open>a += b\<close> needs the result to have the shape
  of \<open>a\<close> (ValueError otherwise) and cannot put floats into an integer array (numpy's
  casting error, a TypeError).\<close>

definition st_update :: "addr \<Rightarrow> (ndarray \<Rightarrow> error + ndarray) \<Rightarrow> unit run" where
  "st_update a f = st_bind (st_get a) (\<lambda>av. st_bind (st_lift (f av)) (\<lambda>av'. st_put a av'))"

fun same_shape :: "ndarray \<Rightarrow> ndarray \<Rightarrow> bool" where
  "same_shape (Vec d a) (Vec d' b) = (length a = length b)"
| "same_shape (Mat d c A) (Mat d' c' B) = (length A = length B \<and> c = c')"
| "same_shape _ _ = False"

definition iadd :: "ndarray \<Rightarrow> ndarray \<Rightarrow> error + ndarray" where
  "iadd b a =
     err_bind (nd_op (+) a b) (\<lambda>r.
       if \<not> same_shape r a then Inl ValueError
       else if nd_dtype a = int64 \<and> nd_dtype r = float64 then Inl TypeError
       else Inr (retag (nd_dtype a) r))"

section \<open>Periodic distance\<close>

text \<open>
\<^verbatim>\<open>
def give_Eulerian_Lagrangian_Distance(x, y, L):
    distance = abs( x - y )
    distance = np.minimum(distance,L-distance) #element-wise minima
    return distance
\<close>
\<close>

definition give_Eulerian_Lagrangian_Distance :: "addr \<Rightarrow> addr \<Rightarrow> real \<Rightarrow> addr run" where
  "give_Eulerian_Lagrangian_Distance x y L =
     st_bind (st_get x) (\<lambda>xv.
     st_bind (st_get y) (\<lambda>yv.
     st_bind (st_lift (nd_op (\<lambda>a b. \<bar>a - b\<bar>) xv yv)) (\<lambda>d.
     st_bind (st_alloc d) (\<lambda>distance.
     st_bind (st_get distance) (\<lambda>dv.
     st_bind (st_lift (nd_op min dv (nd_map (\<lambda>d. L - d) dv))) (\<lambda>d'.
     st_bind (st_alloc d') (\<lambda>distance.
     st_return distance)))))))"

text \<open>An assignment \<^verbatim>\<open>a[part] = expression\<close>: Python evaluates the right-hand side first;
  then the value is stored into the part of the array behind \<open>a\<close>.\<close>

definition st_assign :: "addr \<Rightarrow> (ndarray \<Rightarrow> 'v \<Rightarrow> error + ndarray) \<Rightarrow> error + 'v \<Rightarrow> unit run" where
  "st_assign a store rhs = st_bind (st_lift rhs) (\<lambda>w. st_update a (\<lambda>av. store av w))"

section \<open>The delta kernel\<close>

text \<open>
\<^verbatim>\<open>
@jit
def give_Delta_Kernel(x,dx):
    RMAT = np.abs(x)/dx
    delta = RMAT
    row,col = x.shape
    for ii in range(row):
        for jj in range(col):
            r = RMAT[ii,jj]
            if r<1:
                delta[ii,jj] = ( (3 - 2*r + sqrt(1 + 4*r - 4*r*r) ) / (8*dx) )
            elif (r<2) and (r>=1):
                delta[ii,jj] = ( (5 - 2*r - sqrt(-7 + 12*r - 4*r*r) ) / (8*dx) )
    return delta
\<close>
  \<open>delta\<close> and \<open>RMAT\<close> are two names of one array. The decorator \<^verbatim>\<open>@jit\<close> has numba
  compile the function; the model follows the compiled function where it differs from
  plain Python (the square root of a negative number, an argument with one axis).
\<close>

definition give_Delta_Kernel :: "addr \<Rightarrow> real \<Rightarrow> addr run" where
  "give_Delta_Kernel x dx =
     st_bind (st_get x) (\<lambda>xv.
     st_bind (st_alloc (nd_map (\<lambda>v. \<bar>v\<bar> / dx) xv)) (\<lambda>RMAT.
     let delta = RMAT in
     st_bind (st_lift (shape2 xv)) (\<lambda>(row, col).
     st_bind (st_for [0..<row] (\<lambda>ii. st_for [0..<col] (\<lambda>jj.
        st_bind (st_get RMAT) (\<lambda>Rv.
        st_bind (st_lift (get_entry Rv (int ii) (int jj))) (\<lambda>r.
          if r < 1 then
            st_bind (st_lift (jit_sqrt (1 + 4*r - 4*r*r))) (\<lambda>q.
              st_update delta (\<lambda>dv. set_entry dv (int ii) (int jj) ((3 - 2*r + q) / (8*dx))))
          else if r < 2 \<and> r \<ge> 1 then
            st_bind (st_lift (jit_sqrt (-7 + 12*r - 4*r*r))) (\<lambda>q.
              st_update delta (\<lambda>dv. set_entry dv (int ii) (int jj) ((5 - 2*r - q) / (8*dx))))
          else st_return ()))))) (\<lambda>_.
     st_return delta))))"

section \<open>Support indices\<close>

text \<open>
\<^verbatim>\<open>
def give_1D_NonZero_Delta_Indices(lagPts_j, N, dx, supp):
    ind_Aux = np.floor(lagPts_j/dx + 1)
    indices = np.tile(ind_Aux,(supp,1)).T #stack row vectors then transpose
    indices += -supp/2+1+np.arange(supp) #arange returns row array, which
                                         # broadcasts down each column.
    indices = (indices-1) % N
    return indices
\<close>
  The quotient \<^verbatim>\<open>lagPts_j/dx + 1\<close> is taken over the reals here. The code rounds the
  quotient and the sum to float64 before \<^verbatim>\<open>np.floor\<close>, so next to a grid line it can
  pick the next cell (for \<open>p = 1 - 2^-53\<close> and \<open>dx = 1\<close> the floor is 2 in the code and 1
  here). What is proved below about this function does not depend on which cell is picked:
  the shape of the result, and that its entries are indices of the grid.
\<close>

definition give_1D_NonZero_Delta_Indices :: "addr \<Rightarrow> nat \<Rightarrow> real \<Rightarrow> nat \<Rightarrow> addr run" where
  "give_1D_NonZero_Delta_Indices lagPts_j N dx supp =
     st_bind (st_get lagPts_j) (\<lambda>pv.
     st_bind (st_alloc (nd_map (\<lambda>p. of_int \<lfloor>p / dx + 1\<rfloor>) pv)) (\<lambda>ind_Aux.
     st_bind (st_get ind_Aux) (\<lambda>av.
     st_bind (st_alloc (np_transpose (np_tile av supp 1))) (\<lambda>indices.
     st_bind (st_update indices
                (iadd (Vec float64 (map (\<lambda>j. - real supp / 2 + 1 + real j) [0..<supp])))) (\<lambda>_.
     st_bind (st_get indices) (\<lambda>iv.
     st_bind (st_alloc (nd_map (\<lambda>i. np_mod (i - 1) (real N)) iv)) (\<lambda>indices.
     st_return indices)))))))"

text \<open>
\<^verbatim>\<open>
def give_NonZero_Delta_Indices_XY(xLag, yLag, Nx, Ny, dx, dy, supp):
    xIndsAux = give_1D_NonZero_Delta_Indices(xLag, Nx, dx, supp)
    xInds = []
    xInds = np.tile(xIndsAux,(1,supp)) #tiles matrix in horiz direction
    yIndsAux = give_1D_NonZero_Delta_Indices(yLag, Ny, dy, supp)
    yInds = np.repeat(yIndsAux,supp,axis=1) #repeats each element horizontally
    return (xInds.astype('int'),yInds.astype('int'))
\<close>
  The empty Python list first bound to \<open>xInds\<close> is dropped at once and is not modelled.
\<close>

definition give_NonZero_Delta_Indices_XY ::
  "addr \<Rightarrow> addr \<Rightarrow> nat \<Rightarrow> nat \<Rightarrow> real \<Rightarrow> real \<Rightarrow> nat \<Rightarrow> (addr \<times> addr) run" where
  "give_NonZero_Delta_Indices_XY xLag yLag Nx Ny dx dy supp =
     st_bind (give_1D_NonZero_Delta_Indices xLag Nx dx supp) (\<lambda>xIndsAux.
     st_bind (st_get xIndsAux) (\<lambda>xa.
     st_bind (st_alloc (np_tile xa 1 supp)) (\<lambda>xInds.
     st_bind (give_1D_NonZero_Delta_Indices yLag Ny dy supp) (\<lambda>yIndsAux.
     st_bind (st_get yIndsAux) (\<lambda>ya.
     st_bind (st_lift (np_repeat_axis1 ya supp)) (\<lambda>yr.
     st_bind (st_alloc yr) (\<lambda>yInds.
     st_bind (st_get xInds) (\<lambda>xi.
     st_bind (st_alloc (nd_astype_int xi)) (\<lambda>xInds_int.
     st_bind (st_get yInds) (\<lambda>yi.
     st_bind (st_alloc (nd_astype_int yi)) (\<lambda>yInds_int.
     st_return (xInds_int, yInds_int))))))))))))"

section \<open>Moving the Lagrangian points\<close>

text \<open>
\<^verbatim>\<open>
def give_Me_Perturbed_Distance(u,v,dx,dy,delta_X,delta_Y,xInds,yInds):
    mat_X = u[yInds,xInds]*delta_X*delta_Y
    mat_Y = v[yInds,xInds]*delta_X*delta_Y
    move_X = mat_X.sum(1) * (dx*dy)
    move_Y = mat_Y.sum(1) * (dx*dy)
    return (move_X, move_Y)
\<close>
\<close>

definition stencil :: "addr \<Rightarrow> addr \<Rightarrow> addr \<Rightarrow> addr \<Rightarrow> addr \<Rightarrow> addr run" where
  "stencil u yInds xInds delta_X delta_Y =
     st_bind (st_get u) (\<lambda>uv.
     st_bind (st_get yInds) (\<lambda>yi.
     st_bind (st_get xInds) (\<lambda>xi.
     st_bind (st_lift (take_fancy2 uv yi xi)) (\<lambda>g.
     st_bind (st_get delta_X) (\<lambda>dX.
     st_bind (st_lift (nd_op (*) g dX)) (\<lambda>gX.
     st_bind (st_get delta_Y) (\<lambda>dY.
     st_bind (st_lift (nd_op (*) gX dY)) (\<lambda>gXY.
     st_alloc gXY))))))))"

definition row_sums_times :: "addr \<Rightarrow> real \<Rightarrow> addr run" where
  "row_sums_times m a =
     st_bind (st_get m) (\<lambda>mv.
     st_bind (st_lift (np_sum_axis1 mv)) (\<lambda>rs.
     st_alloc (nd_map (\<lambda>t. t * a) rs)))"

definition give_Me_Perturbed_Distance ::
  "addr \<Rightarrow> addr \<Rightarrow> real \<Rightarrow> real \<Rightarrow> addr \<Rightarrow> addr \<Rightarrow> addr \<Rightarrow> addr \<Rightarrow> (addr \<times> addr) run" where
  "give_Me_Perturbed_Distance u v dx dy delta_X delta_Y xInds yInds =
     st_bind (stencil u yInds xInds delta_X delta_Y) (\<lambda>mat_X.
     st_bind (stencil v yInds xInds delta_X delta_Y) (\<lambda>mat_Y.
     st_bind (row_sums_times mat_X (dx * dy)) (\<lambda>move_X.
     st_bind (row_sums_times mat_Y (dx * dy)) (\<lambda>move_Y.
     st_return (move_X, move_Y)))))"

text \<open>The dictionary \<open>grid_Info\<close>, with the keys the function reads.\<close>

record grid_Info =
  grid_Nx :: nat
  grid_Ny :: nat
  grid_Lx :: real
  grid_Ly :: real
  grid_dx :: real
  grid_dy :: real
  grid_supp :: nat
  grid_Nb :: nat
  grid_ds :: real

text \<open>
\<^verbatim>\<open>
def please_Move_Lagrangian_Point_Positions(u, v, xL_P, yL_P, xL_H, yL_H, x, y,\
    dt, grid_Info,porous_Yes):
    Nx =   grid_Info['Nx']
    ...
    xInds,yInds = give_NonZero_Delta_Indices_XY(xL_H, yL_H, Nx, Ny, dx, dy, supp)
    xLH_aux = xL_H % Lx
    yLH_aux = yL_H % Ly
    xL_H_ReSize = np.tile(xLH_aux,(supp**2,1)).T
    yL_H_ReSize = np.tile(yLH_aux,(supp**2,1)).T
    distX = give_Eulerian_Lagrangian_Distance(x[xInds], xL_H_ReSize, Lx)
    distY = give_Eulerian_Lagrangian_Distance(y[yInds], yL_H_ReSize, Ly)
    delta_X = give_Delta_Kernel(distX, dx)
    delta_Y = give_Delta_Kernel(distY, dy)
    move_X, move_Y = give_Me_Perturbed_Distance(u,v,dx,dy,delta_X,delta_Y,xInds,yInds)
    xL_Next = xL_P + (dt) * move_X
    yL_Next = yL_P + (dt) * move_Y
    if not porous_Yes:
        xL_Next = xL_Next % Lx
        yL_Next = yL_Next % Ly
    return (xL_Next, yL_Next)
\<close>
\<close>

definition mod_array :: "addr \<Rightarrow> real \<Rightarrow> addr run" where
  "mod_array a L = st_bind (st_get a) (\<lambda>av. st_alloc (nd_map (\<lambda>t. np_mod t L) av))"

definition resize :: "addr \<Rightarrow> nat \<Rightarrow> addr run" where
  "resize a n = st_bind (st_get a) (\<lambda>av. st_alloc (np_transpose (np_tile av n 1)))"

definition gather :: "addr \<Rightarrow> addr \<Rightarrow> addr run" where
  "gather x inds =
     st_bind (st_get x) (\<lambda>xv.
     st_bind (st_get inds) (\<lambda>iv.
     st_bind (st_lift (take_fancy xv iv)) (\<lambda>g.
     st_alloc g)))"

definition advance :: "addr \<Rightarrow> real \<Rightarrow> addr \<Rightarrow> addr run" where
  "advance p dt move =
     st_bind (st_get p) (\<lambda>pv.
     st_bind (st_get move) (\<lambda>mv.
     st_bind (st_lift (nd_op (+) pv (nd_map (\<lambda>t. dt * t) mv))) (\<lambda>r.
     st_alloc r)))"

definition please_Move_Lagrangian_Point_Positions ::
  "addr \<Rightarrow> addr \<Rightarrow> addr \<Rightarrow> addr \<Rightarrow> addr \<Rightarrow> addr \<Rightarrow> addr \<Rightarrow> addr \<Rightarrow> real \<Rightarrow> grid_Info \<Rightarrow> bool
     \<Rightarrow> (addr \<times> addr) run" where
  "please_Move_Lagrangian_Point_Positions u v xL_P yL_P xL_H yL_H x y dt grid porous_Yes =
     st_bind (give_NonZero_Delta_Indices_XY xL_H yL_H (grid_Nx grid) (grid_Ny grid) (grid_dx grid) (grid_dy grid)
                (grid_supp grid)) (\<lambda>(xInds, yInds).
     st_bind (mod_array xL_H (grid_Lx grid)) (\<lambda>xLH_aux.
     st_bind (mod_array yL_H (grid_Ly grid)) (\<lambda>yLH_aux.
     st_bind (resize xLH_aux ((grid_supp grid)\<^sup>2)) (\<lambda>xL_H_ReSize.
     st_bind (resize yLH_aux ((grid_supp grid)\<^sup>2)) (\<lambda>yL_H_ReSize.
     st_bind (gather x xInds) (\<lambda>x_at.
     st_bind (give_Eulerian_Lagrangian_Distance x_at xL_H_ReSize (grid_Lx grid)) (\<lambda>distX.
     st_bind (gather y yInds) (\<lambda>y_at.
     st_bind (give_Eulerian_Lagrangian_Distance y_at yL_H_ReSize (grid_Ly grid)) (\<lambda>distY.
     st_bind (give_Delta_Kernel distX (grid_dx grid)) (\<lambda>delta_X.
     st_bind (give_Delta_Kernel distY (grid_dy grid)) (\<lambda>delta_Y.
     st_bind (give_Me_Perturbed_Distance u v (grid_dx grid) (grid_dy grid) delta_X delta_Y xInds yInds)
       (\<lambda>(move_X, move_Y).
     st_bind (advance xL_P dt move_X) (\<lambda>xL_Next.
     st_bind (advance yL_P dt move_Y) (\<lambda>yL_Next.
     if \<not> porous_Yes then
       st_bind (mod_array xL_Next (grid_Lx grid)) (\<lambda>xL_Next.
       st_bind (mod_array yL_Next (grid_Ly grid)) (\<lambda>yL_Next.
       st_return (xL_Next, yL_Next)))
     else st_return (xL_Next, yL_Next)))))))))))))))"

section \<open>Massive boundary points\<close>

text \<open>
\<^verbatim>\<open>
def please_Move_Massive_Boundary(dt_step,mass_info,mVelocity):
    massLagsOld = np.array(mass_info[:,(1, 2)])
    mass_info[:,1] = mass_info[:,1] + dt_step*mVelocity[:,0]
    mass_info[:,2] = mass_info[:,2] + dt_step*mVelocity[:,1]
    return (mass_info, massLagsOld)
\<close>
  The two assignments write into the array the caller passed, and the function returns
  the reference it was given.
\<close>

definition move_column :: "addr \<Rightarrow> int \<Rightarrow> real \<Rightarrow> addr \<Rightarrow> int \<Rightarrow> unit run" where
  "move_column mass_info j dt_step mVelocity k =
     st_bind (st_get mass_info) (\<lambda>mi.
     st_bind (st_lift (get_col mi j)) (\<lambda>pos.
     st_bind (st_get mVelocity) (\<lambda>mv.
     st_bind (st_lift (get_col mv k)) (\<lambda>vel.
     st_bind (st_lift (vop (+) pos (map (\<lambda>w. dt_step * w) vel))) (\<lambda>new.
     st_update mass_info (\<lambda>mi'. set_col mi' j new))))))"

definition please_Move_Massive_Boundary :: "real \<Rightarrow> addr \<Rightarrow> addr \<Rightarrow> (addr \<times> addr) run" where
  "please_Move_Massive_Boundary dt_step mass_info mVelocity =
     st_bind (st_get mass_info) (\<lambda>mi.
     st_bind (st_lift (take_cols2 mi 1 2)) (\<lambda>old.
     st_bind (st_alloc old) (\<lambda>massLagsOld.
     st_bind (move_column mass_info 1 dt_step mVelocity 0) (\<lambda>_.
     st_bind (move_column mass_info 2 dt_step mVelocity 1) (\<lambda>_.
     st_return (mass_info, massLagsOld))))))"

text \<open>
  The names bound at the top level of the module: the three imports and the functions.
  A name that a function uses without binding it is looked up here. None of these names
  is bound to an array; an assignment to a part of a function or a module is a TypeError,
  and a name that is not bound at all is a NameError.
\<close>

definition module_globals :: "string list" where
  "module_globals =
     [''np'', ''sqrt'', ''jit'',
      ''please_Move_Lagrangian_Point_Positions'', ''give_Me_Perturbed_Distance'',
      ''give_NonZero_Delta_Indices_XY'', ''give_Eulerian_Lagrangian_Distance'',
      ''give_Delta_Kernel'', ''give_1D_NonZero_Delta_Indices'',
      ''please_Move_Massive_Boundary'', ''please_Update_Massive_Boundary_Velocity'',
      ''D'', ''DD'', ''please_Update_Adv_Diff_Concentration'']"

definition global_array :: "string \<Rightarrow> error + addr" where
  "global_array name = (if name \<in> set module_globals then Inl TypeError else Inl NameError)"

text \<open>
\<^verbatim>\<open>
def please_Update_Massive_Boundary_Velocity(dt_step,mass_info,mVelocity,\
    F_Mass_Bnd,gravity_Info):
    ids = mass_info[:,0]
    if gravity_Info[0] == 1:
        g = 9.80665 #m/s^2
        mVelocity_h[:,0] = mVelocity[:,0] - dt_step * \
        ( F_Mass_Bnd[ids,0]/mass_info[:,4] - g*gravity_Info[1] )
        mVelocity_h[:,1] = mVelocity[:,1] - dt_step * \
        ( F_Mass_Bnd[ids,1]/mass_info[:,4] - g*gravity_Info[2] )
    else:
        mVelocity_h[:,0] = mVelocity[:,0] - dt_step*F_Mass_Bnd[ids,0]/mass_info[:,4]
        mVelocity_h[:,1] = mVelocity[:,1] - dt_step*F_Mass_Bnd[ids,1]/mass_info[:,4]
    return mVelocity_h
\<close>
  Python evaluates the right-hand side of an assignment first and the target after it.
  \<open>ids\<close> is a part of \<open>mass_info\<close> and has its element type. \<open>mVelocity_h\<close> is bound
  neither in the function nor in the module.
\<close>

definition velocity_rhs ::
  "real \<Rightarrow> addr \<Rightarrow> addr \<Rightarrow> addr \<Rightarrow> dtype \<Rightarrow> real list \<Rightarrow> int \<Rightarrow> (real \<times> ndarray \<times> int) option
     \<Rightarrow> real list run" where
  "velocity_rhs dt_step mass_info mVelocity F_Mass_Bnd d ids j gravity =
     st_bind (st_get mVelocity) (\<lambda>mv.
     st_bind (st_lift (get_col mv j)) (\<lambda>vel.
     st_bind (st_get F_Mass_Bnd) (\<lambda>Fv.
     st_bind (st_lift (take_rows_col Fv d ids j)) (\<lambda>force.
     st_bind (st_get mass_info) (\<lambda>mi.
     st_bind (st_lift (get_col mi 4)) (\<lambda>mass.
     case gravity of
       Some (g, gv, i) \<Rightarrow>
         st_bind (st_lift (vop (/) force mass)) (\<lambda>acc.
         st_bind (st_lift (get_item gv i)) (\<lambda>gi.
         st_lift (vop (-) vel (map (\<lambda>a. dt_step * (a - g * gi)) acc))))
     | None \<Rightarrow>
         st_bind (st_lift (vop (/) (map (\<lambda>f. dt_step * f) force) mass)) (\<lambda>acc.
         st_lift (vop (-) vel acc))))))))"

definition assign_velocity_column :: "int \<Rightarrow> real list \<Rightarrow> unit run" where
  "assign_velocity_column j v =
     st_bind (st_lift (global_array ''mVelocity_h'')) (\<lambda>mVelocity_h.
     st_update mVelocity_h (\<lambda>h. set_col h j v))"

definition please_Update_Massive_Boundary_Velocity ::
  "real \<Rightarrow> addr \<Rightarrow> addr \<Rightarrow> addr \<Rightarrow> addr \<Rightarrow> addr run" where
  "please_Update_Massive_Boundary_Velocity dt_step mass_info mVelocity F_Mass_Bnd gravity_Info =
     st_bind (st_get mass_info) (\<lambda>mi.
     st_bind (st_lift (get_col mi 0)) (\<lambda>ids.
     st_bind (st_get gravity_Info) (\<lambda>gv.
     st_bind (st_lift (get_item gv 0)) (\<lambda>flag.
     if flag = 1 then
       (let g = 980665 / 100000 in
        st_bind (velocity_rhs dt_step mass_info mVelocity F_Mass_Bnd (nd_dtype mi) ids 0
                   (Some (g, gv, 1))) (\<lambda>v0.
        st_bind (assign_velocity_column 0 v0) (\<lambda>_.
        st_bind (velocity_rhs dt_step mass_info mVelocity F_Mass_Bnd (nd_dtype mi) ids 1
                   (Some (g, gv, 2))) (\<lambda>v1.
        st_bind (assign_velocity_column 1 v1) (\<lambda>_.
        st_lift (global_array ''mVelocity_h''))))))
     else
        st_bind (velocity_rhs dt_step mass_info mVelocity F_Mass_Bnd (nd_dtype mi) ids 0 None)
          (\<lambda>v0.
        st_bind (assign_velocity_column 0 v0) (\<lambda>_.
        st_bind (velocity_rhs dt_step mass_info mVelocity F_Mass_Bnd (nd_dtype mi) ids 1 None)
          (\<lambda>v1.
        st_bind (assign_velocity_column 1 v1) (\<lambda>_.
        st_lift (global_array ''mVelocity_h'')))))))))"

section \<open>Finite differences\<close>

text \<open>The right-hand sides of the assignments in \<open>D\<close> and \<open>DD\<close>, for two or three
  columns (or rows) and for two or three blocks of columns (or rows).\<close>

definition diff1 :: "real \<Rightarrow> real list \<Rightarrow> real list \<Rightarrow> error + real list" where
  "diff1 dz a b = err_bind (vop (-) a b) (\<lambda>w. Inr (map (\<lambda>t. t / (2 * dz)) w))"

definition diff1_block ::
  "real \<Rightarrow> nat \<times> real list list \<Rightarrow> nat \<times> real list list \<Rightarrow> error + nat \<times> real list list" where
  "diff1_block dz A B =
     err_bind (mop (-) (fst A) (snd A) (fst B) (snd B))
       (\<lambda>(c, R). Inr (c, map (map (\<lambda>t. t / (2 * dz))) R))"

definition diff2 :: "real \<Rightarrow> real list \<Rightarrow> real list \<Rightarrow> real list \<Rightarrow> error + real list" where
  "diff2 dz a b c =
     err_bind (vop (-) a (map (\<lambda>t. 2 * t) b)) (\<lambda>w.
     err_bind (vop (+) w c) (\<lambda>w'. Inr (map (\<lambda>t. t / dz\<^sup>2) w')))"

definition diff2_block ::
  "real \<Rightarrow> nat \<times> real list list \<Rightarrow> nat \<times> real list list \<Rightarrow> nat \<times> real list list
     \<Rightarrow> error + nat \<times> real list list" where
  "diff2_block dz A B C =
     err_bind (mop (-) (fst A) (snd A) (fst B) (map (map (\<lambda>t. 2 * t)) (snd B))) (\<lambda>(c, R).
     err_bind (mop (+) c R (fst C) (snd C)) (\<lambda>(c', R').
       Inr (c', map (map (\<lambda>t. t / dz\<^sup>2)) R')))"

definition newline :: char where
  "newline = CHR 0x0A"

text \<open>
\<^verbatim>\<open>
def D(u,dz,string):
    length = u.shape[0]
    u_z = np.zeros((length,length))
    if string=='x':
        u_z[:,0] = ( u[:,1] - u[:,length-1] ) / (2*dz)
        u_z[:,-1]= ( u[:,0] - u[:,length-2] ) / (2*dz)
        u_z[:,1:length-1] = ( u[:,2:length] - u[:,:length-2] ) / (2*dz)
    elif string=='y':
        u_z[0,:] = ( u[1,:] - u[length-1,:] ) / (2*dz)
        u_z[length-1,:] = ( u[0,:] - u[length-2,:] ) / (2*dz)
        u_z[1:length-1,:] = ( u[2:length,:] - u[:length-2,:] ) / (2*dz)
    else:
        print('\n\n\n ERROR IN FUNCTION D FOR COMPUTING 1ST DERIVATIVE\n')
        print('Need to specify which desired derivative, x or y.\n\n\n')
    return u_z
\<close>
  \<open>stdout\<close> gets one entry for every call of \<open>print\<close>, the text printed without the
  line end that \<open>print\<close> adds.
\<close>

definition D :: "addr \<Rightarrow> real \<Rightarrow> string \<Rightarrow> addr run" where
  "D u dz string =
     st_bind (st_get u) (\<lambda>uv.
     let len = shape0 uv in
     st_bind (st_alloc (np_zeros len len)) (\<lambda>u_z.
     st_bind
       (if string = ''x'' then
          st_bind (st_assign u_z (\<lambda>z. set_col z 0)
                     (err_bind (get_col uv 1) (\<lambda>a.
                      err_bind (get_col uv (int len - 1)) (\<lambda>b. diff1 dz a b)))) (\<lambda>_.
          st_bind (st_assign u_z (\<lambda>z. set_col z (- 1))
                     (err_bind (get_col uv 0) (\<lambda>a.
                      err_bind (get_col uv (int len - 2)) (\<lambda>b. diff1 dz a b)))) (\<lambda>_.
          st_assign u_z (\<lambda>z. set_col_slice z 1 (int len - 1))
                     (err_bind (get_col_slice uv 2 (int len)) (\<lambda>A.
                      err_bind (get_col_slice uv 0 (int len - 2)) (\<lambda>B. diff1_block dz A B)))))
        else if string = ''y'' then
          st_bind (st_assign u_z (\<lambda>z. set_row z 0)
                     (err_bind (get_row uv 1) (\<lambda>a.
                      err_bind (get_row uv (int len - 1)) (\<lambda>b. diff1 dz a b)))) (\<lambda>_.
          st_bind (st_assign u_z (\<lambda>z. set_row z (int len - 1))
                     (err_bind (get_row uv 0) (\<lambda>a.
                      err_bind (get_row uv (int len - 2)) (\<lambda>b. diff1 dz a b)))) (\<lambda>_.
          st_assign u_z (\<lambda>z. set_row_slice z 1 (int len - 1))
                     (err_bind (get_row_slice uv 2 (int len)) (\<lambda>A.
                      err_bind (get_row_slice uv 0 (int len - 2)) (\<lambda>B. diff1_block dz A B)))))
        else
          st_bind (st_print (replicate 3 newline
                     @ '' ERROR IN FUNCTION D FOR COMPUTING 1ST DERIVATIVE'' @ [newline])) (\<lambda>_.
          st_print (''Need to specify which desired derivative, x or y.''
                     @ replicate 3 newline))) (\<lambda>_.
     st_return u_z)))"

text \<open>
\<^verbatim>\<open>
def DD(u,dz,string):
    length = u.shape[0]
    u_zz = np.zeros((length,length))
    if string=='x':
        u_zz[:,0] =  ( u[:,1] - 2*u[:,0]   + u[:,length-1] )   / (dz**2)
        u_zz[:,-1] = ( u[:,0] - 2*u[:,length-1] + u[:,length-2] ) / (dz**2)
        u_zz[:,1:length-1] = (u[:,2:length]-2*u[:,1:length-1]+u[:,:length-2])\
                                / (dz**2)
    elif string=='y':
        u_zz[0,:] =  ( u[1,:] - 2*u[0,:]   + u[length-1,:] )   / (dz**2)
        u_zz[-1,:]= ( u[0,:] - 2*u[length-1,:] + u[length-2,:] ) / (dz**2)
        u_zz[1:length-1,:] = (u[2:length,:]-2*u[1:length-1,:]+u[:length-2,:])\
                                / (dz**2)
    else:
        print('\n\n\n ERROR IN FUNCTION DD FOR COMPUTING 2ND DERIVATIVE\n')
        print('Need to specify which desired derivative, x or y.\n\n\n')
    return u_zz
\<close>
\<close>

definition DD :: "addr \<Rightarrow> real \<Rightarrow> string \<Rightarrow> addr run" where
  "DD u dz string =
     st_bind (st_get u) (\<lambda>uv.
     let len = shape0 uv in
     st_bind (st_alloc (np_zeros len len)) (\<lambda>u_zz.
     st_bind
       (if string = ''x'' then
          st_bind (st_assign u_zz (\<lambda>z. set_col z 0)
                     (err_bind (get_col uv 1) (\<lambda>a.
                      err_bind (get_col uv 0) (\<lambda>b.
                      err_bind (get_col uv (int len - 1)) (\<lambda>c. diff2 dz a b c))))) (\<lambda>_.
          st_bind (st_assign u_zz (\<lambda>z. set_col z (- 1))
                     (err_bind (get_col uv 0) (\<lambda>a.
                      err_bind (get_col uv (int len - 1)) (\<lambda>b.
                      err_bind (get_col uv (int len - 2)) (\<lambda>c. diff2 dz a b c))))) (\<lambda>_.
          st_assign u_zz (\<lambda>z. set_col_slice z 1 (int len - 1))
                     (err_bind (get_col_slice uv 2 (int len)) (\<lambda>A.
                      err_bind (get_col_slice uv 1 (int len - 1)) (\<lambda>B.
                      err_bind (get_col_slice uv 0 (int len - 2)) (\<lambda>C.
                        diff2_block dz A B C))))))
        else if string = ''y'' then
          st_bind (st_assign u_zz (\<lambda>z. set_row z 0)
                     (err_bind (get_row uv 1) (\<lambda>a.
                      err_bind (get_row uv 0) (\<lambda>b.
                      err_bind (get_row uv (int len - 1)) (\<lambda>c. diff2 dz a b c))))) (\<lambda>_.
          st_bind (st_assign u_zz (\<lambda>z. set_row z (- 1))
                     (err_bind (get_row uv 0) (\<lambda>a.
                      err_bind (get_row uv (int len - 1)) (\<lambda>b.
                      err_bind (get_row uv (int len - 2)) (\<lambda>c. diff2 dz a b c))))) (\<lambda>_.
          st_assign u_zz (\<lambda>z. set_row_slice z 1 (int len - 1))
                     (err_bind (get_row_slice uv 2 (int len)) (\<lambda>A.
                      err_bind (get_row_slice uv 1 (int len - 1)) (\<lambda>B.
                      err_bind (get_row_slice uv 0 (int len - 2)) (\<lambda>C.
                        diff2_block dz A B C))))))
        else
          st_bind (st_print (replicate 3 newline
                     @ '' ERROR IN FUNCTION DD FOR COMPUTING 2ND DERIVATIVE'' @ [newline])) (\<lambda>_.
          st_print (''Need to specify which desired derivative, x or y.''
                     @ replicate 3 newline))) (\<lambda>_.
     st_return u_zz)))"

section \<open>Advection and diffusion of a concentration\<close>

text \<open>
\<^verbatim>\<open>
def please_Update_Adv_Diff_Concentration(C,dt,dx,dy,uX,uY,k):
    Cx = D(C,dx,'x')
    Cy = D(C,dy,'y')
    Cxx = DD(C,dx,'x')
    Cyy = DD(C,dy,'y')
    C = C + dt * ( k*(Cxx+Cyy) - uX*Cx - uY*Cy )
    return C
\<close>
  The last assignment binds the local name \<open>C\<close> to a new array.
\<close>

definition adv_diff_step ::
  "real \<Rightarrow> real \<Rightarrow> ndarray \<Rightarrow> ndarray \<Rightarrow> ndarray \<Rightarrow> ndarray \<Rightarrow> ndarray \<Rightarrow> ndarray \<Rightarrow> ndarray
     \<Rightarrow> error + ndarray" where
  "adv_diff_step dt k Cv Cx Cy Cxx Cyy uX uY =
     err_bind (nd_op (+) Cxx Cyy) (\<lambda>lap.
     err_bind (nd_op (*) uX Cx) (\<lambda>ax.
     err_bind (nd_op (-) (nd_map (\<lambda>t. k * t) lap) ax) (\<lambda>t1.
     err_bind (nd_op (*) uY Cy) (\<lambda>ay.
     err_bind (nd_op (-) t1 ay) (\<lambda>t2.
     nd_op (+) Cv (nd_map (\<lambda>t. dt * t) t2))))))"

definition please_Update_Adv_Diff_Concentration ::
  "addr \<Rightarrow> real \<Rightarrow> real \<Rightarrow> real \<Rightarrow> addr \<Rightarrow> addr \<Rightarrow> real \<Rightarrow> addr run" where
  "please_Update_Adv_Diff_Concentration C dt dx dy uX uY k =
     st_bind (D C dx ''x'') (\<lambda>Cx.
     st_bind (D C dy ''y'') (\<lambda>Cy.
     st_bind (DD C dx ''x'') (\<lambda>Cxx.
     st_bind (DD C dy ''y'') (\<lambda>Cyy.
     st_bind (st_get C) (\<lambda>Cv.
     st_bind (st_get Cx) (\<lambda>Cxv.
     st_bind (st_get Cy) (\<lambda>Cyv.
     st_bind (st_get Cxx) (\<lambda>Cxxv.
     st_bind (st_get Cyy) (\<lambda>Cyyv.
     st_bind (st_get uX) (\<lambda>uXv.
     st_bind (st_get uY) (\<lambda>uYv.
     st_bind (st_lift (adv_diff_step dt k Cv Cxv Cyv Cxxv Cyyv uXv uYv)) (\<lambda>r.
     st_bind (st_alloc r) (\<lambda>C.
     st_return C)))))))))))))"

section \<open>Which arrays a computation leaves alone\<close>

text \<open>
  \<open>pres B W m Q\<close>: started in a store that has at least \<open>B\<close> cells, the computation
  \<open>m\<close> never shrinks the store, leaves every one of the first \<open>B\<close> cells outside \<open>W\<close>
  as it was, whether it returns or raises, and a value it returns satisfies \<open>Q\<close>.
\<close>

definition pres :: "nat \<Rightarrow> nat set \<Rightarrow> 'a run \<Rightarrow> ('a \<Rightarrow> bool) \<Rightarrow> bool" where
  "pres B W m Q \<longleftrightarrow>
     (\<forall>s r s'. B \<le> length (heap s) \<longrightarrow> m s = (r, s') \<longrightarrow>
        length (heap s) \<le> length (heap s')
      \<and> (\<forall>a<B. a \<notin> W \<longrightarrow> heap s' ! a = heap s ! a)
      \<and> (\<forall>x. r = Inr x \<longrightarrow> Q x))"

section \<open>Example stores\<close>

text \<open>One 2 x 2 field.\<close>

definition s_field :: state where
  "s_field = \<lparr>heap = [Mat float64 2 [[1, 2], [3, 4]]], stdout = []\<rparr>"

text \<open>One 1 x 1 array that holds the distance 3, for the grid spacing 1.\<close>

definition s_far :: state where
  "s_far = \<lparr>heap = [Mat float64 1 [[3]]], stdout = []\<rparr>"

text \<open>A massive boundary of one point: \<open>mass_info\<close> with index 0, position (0, 0), stiffness 1
  and mass 2; the velocity (0, 0); the force (0, 0) on the Lagrangian point 0; gravity
  switched off.\<close>

definition s_mass :: state where
  "s_mass = \<lparr>heap = [Mat float64 5 [[0, 0, 0, 1, 2]], Mat float64 2 [[0, 0]],
                      Mat float64 2 [[0, 0]], Vec float64 [0, 0, - 1]], stdout = []\<rparr>"

text \<open>A massive boundary of one point at (1, 2) with the velocity (1, 1).\<close>

definition s_moving :: state where
  "s_moving = \<lparr>heap = [Mat float64 5 [[0, 1, 2, 0, 1]], Mat float64 2 [[1, 1]]], stdout = []\<rparr>"

text \<open>The same boundary with the force (0, 0) on its point and gravity switched off: the
  cells 0 to 3 hold \<open>mass_info\<close>, \<open>mVelocity\<close>, \<open>F_Mass_Bnd\<close> and \<open>gravity_Info\<close>.\<close>

definition s_boundary :: state where
  "s_boundary = \<lparr>heap = [Mat float64 5 [[0, 1, 2, 0, 1]], Mat float64 2 [[1, 1]],
                          Mat float64 2 [[0, 0]], Vec float64 [0, 0, - 1]], stdout = []\<rparr>"

text \<open>A grid of 2 x 2 cells of size 1 with a fluid at rest, and one Lagrangian point in the
  middle of a cell: the cells 0 to 7 hold \<open>u\<close>, \<open>v\<close>, \<open>xL_P\<close>, \<open>yL_P\<close>, \<open>xL_H\<close>,
  \<open>yL_H\<close>, \<open>x\<close> and \<open>y\<close>.\<close>

definition grid_small :: grid_Info where
  "grid_small = \<lparr>grid_Nx = 2, grid_Ny = 2, grid_Lx = 2, grid_Ly = 2, grid_dx = 1, grid_dy = 1,
                  grid_supp = 2, grid_Nb = 1, grid_ds = 1\<rparr>"

definition s_points :: state where
  "s_points = \<lparr>heap = [Mat float64 2 [[0, 0], [0, 0]], Mat float64 2 [[0, 0], [0, 0]],
                        Vec float64 [1 / 2], Vec float64 [1 / 2],
                        Vec float64 [1 / 2], Vec float64 [1 / 2],
                        Vec float64 [0, 1], Vec float64 [0, 1]], stdout = []\<rparr>"

text \<open>The call that moves this point for the time 0.01 in a domain that is not porous.\<close>

definition moved_points :: "(error + addr \<times> addr) \<times> state" where
  "moved_points = please_Move_Lagrangian_Point_Positions 0 1 2 3 4 5 6 7 (1 / 100) grid_small
                    False s_points"

section \<open>Runs that return\<close>

text \<open>\<open>runs m s x s'\<close>: started in the store \<open>s\<close>, the computation \<open>m\<close> returns \<open>x\<close> and
  leaves the store \<open>s'\<close>.\<close>

definition runs :: "'a run \<Rightarrow> state \<Rightarrow> 'a \<Rightarrow> state \<Rightarrow> bool" where
  "runs m s x s' \<longleftrightarrow> m s = (Inr x, s')"

section \<open>Computations that return\<close>

text \<open>\<open>total P m Q\<close>: started in a store that satisfies \<open>P\<close>, the computation \<open>m\<close> returns,
  and the value it returns and the store it leaves satisfy \<open>Q\<close>.\<close>

definition total :: "(state \<Rightarrow> bool) \<Rightarrow> 'a run \<Rightarrow> ('a \<Rightarrow> state \<Rightarrow> bool) \<Rightarrow> bool" where
  "total P m Q \<longleftrightarrow> (\<forall>s. P s \<longrightarrow> (\<exists>x s'. runs m s x s' \<and> Q x s'))"




section \<open>Running the store monad\<close>

lemma st_bind_lift_Inr: "st_bind (st_lift (Inr x)) k s = k x s"
  by (simp add: st_bind_def st_lift_def)

lemma st_bind_lift_Inl: "st_bind (st_lift (Inl e)) k s = (Inl e, s)"
  by (simp add: st_bind_def st_lift_def)

lemma st_bind_return: "st_bind (st_return x) k s = k x s"
  by (simp add: st_bind_def st_return_def)

lemma st_bind_alloc: "st_bind (st_alloc a) k s = k (length (heap s)) (s\<lparr>heap := heap s @ [a]\<rparr>)"
  by (simp add: st_bind_def st_alloc_def)

lemma st_bind_get: "a < length (heap s) \<Longrightarrow> st_bind (st_get a) k s = k (heap s ! a) s"
  by (simp add: st_bind_def st_get_def)

lemma st_bind_ok: "m s = (Inr x, s') \<Longrightarrow> st_bind m k s = k x s'"
  by (simp add: st_bind_def)

section \<open>Facts about the element-wise operations\<close>

lemma concat_map2_map2:
  "length A = length B \<Longrightarrow> \<forall>i<length A. length (A ! i) = length (B ! i) \<Longrightarrow>
   concat (map2 (map2 f) A B) = map2 f (concat A) (concat B)"
proof (induction A B rule: list_induct2)
  case Nil
  then show ?case by simp
next
  case (Cons a A b B)
  have "length a = length b" using Cons.prems by force
  moreover have "\<forall>i<length A. length (A ! i) = length (B ! i)" using Cons.prems by force
  ultimately show ?case using Cons.IH by simp
qed

lemma stretch_same: "length xs = n \<Longrightarrow> stretch n xs = xs"
  by (auto simp: stretch_def split: list.splits)

lemma vop_same: "length a = length b \<Longrightarrow> vop f a b = Inr (map2 f a b)"
  by (simp add: vop_def bdim_def err_bind_def stretch_same)

lemma mop_same:
  "length A = length B \<Longrightarrow> list_all (\<lambda>r. length r = c) A \<Longrightarrow> list_all (\<lambda>r. length r = c) B \<Longrightarrow>
   mop f c A c B = Inr (c, map2 (map2 f) A B)"
  by (auto simp: mop_def bdim_def err_bind_def stretch_same list_all_iff elim: in_set_zipE)

lemma nd_op_same:
  assumes "same_shape xv yv" "wf_array xv" "wf_array yv"
  shows "\<exists>r. nd_op f xv yv = Inr r \<and> same_shape r xv \<and> wf_array r
     \<and> nd_dtype r = join_dtype (nd_dtype xv) (nd_dtype yv)
     \<and> nd_values r = map2 f (nd_values xv) (nd_values yv)"
proof (cases xv)
  case (Vec d a)
  then show ?thesis using assms by (cases yv) (auto simp: vop_same err_bind_def)
next
  case xm: (Mat d c A)
  then obtain d' B where ym: "yv = Mat d' c B" and len: "length A = length B"
    using assms(1) by (cases yv) auto
  have wfA: "list_all (\<lambda>r. length r = c) A" and wfB: "list_all (\<lambda>r. length r = c) B"
    using assms xm ym by auto
  have "concat (map2 (map2 f) A B) = map2 f (concat A) (concat B)"
    using len wfA wfB by (intro concat_map2_map2) (auto simp: list_all_length)
  moreover have "list_all (\<lambda>r. length r = c) (map2 (map2 f) A B)"
    using wfA wfB by (auto simp: list_all_iff elim: in_set_zipE)
  ultimately show ?thesis
    using xm ym len wfA wfB by (simp add: mop_same err_bind_def)
qed

lemma nd_map_props:
  "same_shape (nd_map f xv) xv" "wf_array xv \<Longrightarrow> wf_array (nd_map f xv)"
  "nd_values (nd_map f xv) = map f (nd_values xv)" "nd_dtype (nd_map f xv) = float64"
  by (cases xv; auto simp: list_all_iff map_concat)+


lemma same_shape_sym: "same_shape a b \<Longrightarrow> same_shape b a"
  by (cases a; cases b) auto

lemma same_shape_trans: "same_shape a b \<Longrightarrow> same_shape b c \<Longrightarrow> same_shape a c"
  by (cases a; cases b; cases c) auto

lemma map2_map_same: "map2 f xs (map g xs) = map (\<lambda>x. f x (g x)) xs"
  by (induction xs) auto

lemma map_map2: "map h (map2 f xs ys) = map2 (\<lambda>a b. h (f a b)) xs ys"
  by (induction xs ys rule: list_induct2') auto

section \<open>Periodic distance: correctness\<close>

lemma distance_run:
  assumes "x < length (heap s)" "y < length (heap s)"
    and "same_shape (heap s ! x) (heap s ! y)" "wf_array (heap s ! x)" "wf_array (heap s ! y)"
  shows "\<exists>d d'. give_Eulerian_Lagrangian_Distance x y L s
           = (Inr (length (heap s) + 1), s\<lparr>heap := heap s @ [d, d']\<rparr>)
         \<and> same_shape d' (heap s ! x) \<and> wf_array d' \<and> nd_dtype d' = float64
         \<and> nd_values d' = map2 (\<lambda>a b. min (abs (a - b)) (L - abs (a - b)))
                             (nd_values (heap s ! x)) (nd_values (heap s ! y))"
proof -
  obtain d where d: "nd_op (\<lambda>a b. abs (a - b)) (heap s ! x) (heap s ! y) = Inr d"
    "same_shape d (heap s ! x)" "wf_array d"
    "nd_values d = map2 (\<lambda>a b. abs (a - b)) (nd_values (heap s ! x)) (nd_values (heap s ! y))"
    using nd_op_same[OF assms(3-5)] by blast
  have "same_shape d (nd_map (\<lambda>t. L - t) d)"
    by (simp add: nd_map_props same_shape_sym)
  then obtain d' where d': "nd_op min d (nd_map (\<lambda>t. L - t) d) = Inr d'"
    "same_shape d' d" "wf_array d'"
    "nd_dtype d' = join_dtype (nd_dtype d) (nd_dtype (nd_map (\<lambda>t. L - t) d))"
    "nd_values d' = map2 min (nd_values d) (nd_values (nd_map (\<lambda>t. L - t) d))"
    using nd_op_same[of d "nd_map (\<lambda>t. L - t) d" min] d(3) by (auto simp: nd_map_props)
  have run: "give_Eulerian_Lagrangian_Distance x y L s
           = (Inr (length (heap s) + 1), s\<lparr>heap := heap s @ [d, d']\<rparr>)"
    unfolding give_Eulerian_Lagrangian_Distance_def
    using assms(1,2) d(1) d'(1)
    by (simp add: st_bind_get st_bind_lift_Inr st_bind_alloc st_return_def nth_append)
  have "nd_dtype d' = float64"
    using d'(4) by (cases "nd_dtype d") (simp_all add: nd_map_props)
  moreover have "nd_values d' = map2 (\<lambda>a b. min (abs (a - b)) (L - abs (a - b)))
                             (nd_values (heap s ! x)) (nd_values (heap s ! y))"
    unfolding d'(5) nd_map_props d(4) by (rule nth_equalityI) auto
  ultimately show ?thesis
    using run d'(2,3) d(2) same_shape_trans by blast
qed


lemma length_concat_wf: "list_all (\<lambda>r. length r = c) A \<Longrightarrow> length (concat A) = length A * c"
  by (induction A) auto

lemma same_shape_length_values:
  "same_shape a b \<Longrightarrow> wf_array a \<Longrightarrow> wf_array b \<Longrightarrow> length (nd_values a) = length (nd_values b)"
  by (cases a; cases b) (auto simp: length_concat_wf)

text \<open>
  Claim C8. Let \<open>x\<close> and \<open>y\<close> be two arrays of the same shape with entries in \<open>[0, L)\<close>,
  \<open>L > 0\<close>. Then \<open>give_Eulerian_Lagrangian_Distance(x, y, L)\<close> returns a new array of that
  shape whose entry for the entries \<open>a\<close> of \<open>x\<close> and \<open>b\<close> of \<open>y\<close> is
  \<open>min(|a-b|, L-|a-b|)\<close>; the call with \<open>x\<close> and \<open>y\<close> exchanged returns the same entries;
  every entry lies in \<open>[0, L/2]\<close>; and the entry is 0 where \<open>a = b\<close>.
\<close>

theorem give_Eulerian_Lagrangian_Distance_periodic:
  assumes "x < length (heap s)" "y < length (heap s)"
    and "same_shape (heap s ! x) (heap s ! y)" "wf_array (heap s ! x)" "wf_array (heap s ! y)"
    and "0 < L"
    and "\<forall>a \<in> set (nd_values (heap s ! x)). 0 \<le> a \<and> a < L"
    and "\<forall>b \<in> set (nd_values (heap s ! y)). 0 \<le> b \<and> b < L"
  shows "\<exists>r s' r2 s2.
           give_Eulerian_Lagrangian_Distance x y L s = (Inr r, s')
         \<and> give_Eulerian_Lagrangian_Distance y x L s = (Inr r2, s2)
         \<and> r < length (heap s') \<and> r2 < length (heap s2)
         \<and> same_shape (heap s' ! r) (heap s ! x)
         \<and> length (nd_values (heap s' ! r)) = length (nd_values (heap s ! x))
         \<and> (\<forall>i < length (nd_values (heap s ! x)).
               let a = nd_values (heap s ! x) ! i; b = nd_values (heap s ! y) ! i;
                   d = nd_values (heap s' ! r) ! i
               in d = min (abs (a - b)) (L - abs (a - b)) \<and> nd_values (heap s2 ! r2) ! i = d
                  \<and> 0 \<le> d \<and> d \<le> L / 2 \<and> (a = b \<longrightarrow> d = 0))"
proof -
  let ?xs = "nd_values (heap s ! x)" and ?ys = "nd_values (heap s ! y)"
  have len: "length ?xs = length ?ys"
    using assms(3-5) by (rule same_shape_length_values)
  obtain d d' where xy: "give_Eulerian_Lagrangian_Distance x y L s
           = (Inr (length (heap s) + 1), s\<lparr>heap := heap s @ [d, d']\<rparr>)"
    "same_shape d' (heap s ! x)"
    "nd_values d' = map2 (\<lambda>a b. min (abs (a - b)) (L - abs (a - b))) ?xs ?ys"
    using distance_run[OF assms(1-5)] by blast
  obtain e e' where yx: "give_Eulerian_Lagrangian_Distance y x L s
           = (Inr (length (heap s) + 1), s\<lparr>heap := heap s @ [e, e']\<rparr>)"
    "nd_values e' = map2 (\<lambda>a b. min (abs (a - b)) (L - abs (a - b))) ?ys ?xs"
    using distance_run[OF assms(2,1) same_shape_sym[OF assms(3)] assms(5,4)] by blast
  have pt: "d1 = min (abs (a - b)) (L - abs (a - b)) \<Longrightarrow> 0 \<le> a \<Longrightarrow> a < L \<Longrightarrow> 0 \<le> b \<Longrightarrow> b < L \<Longrightarrow>
         min (abs (b - a)) (L - abs (b - a)) = d1 \<and> 0 \<le> d1 \<and> d1 \<le> L / 2 \<and> (a = b \<longrightarrow> d1 = 0)"
    for d1 a b :: real
    using assms(6) by (auto simp: min_def abs_if)
  have "\<forall>i < length ?xs.
               let a = ?xs ! i; b = ?ys ! i; d1 = nd_values d' ! i
               in d1 = min (abs (a - b)) (L - abs (a - b)) \<and> nd_values e' ! i = d1
                  \<and> 0 \<le> d1 \<and> d1 \<le> L / 2 \<and> (a = b \<longrightarrow> d1 = 0)"
  proof (intro allI impI)
    fix i assume i: "i < length ?xs"
    then have "0 \<le> ?xs ! i \<and> ?xs ! i < L" "0 \<le> ?ys ! i \<and> ?ys ! i < L"
      using assms(7,8) len by (auto simp: all_set_conv_all_nth)
    then show "let a = ?xs ! i; b = ?ys ! i; d1 = nd_values d' ! i
               in d1 = min (abs (a - b)) (L - abs (a - b)) \<and> nd_values e' ! i = d1
                  \<and> 0 \<le> d1 \<and> d1 \<le> L / 2 \<and> (a = b \<longrightarrow> d1 = 0)"
      using pt[of "nd_values d' ! i" "?xs ! i" "?ys ! i"] i len
      by (simp add: xy(3) yx(2) Let_def)
  qed
  moreover have "length (nd_values d') = length ?xs"
    using len by (simp add: xy(3))
  ultimately show ?thesis
    using xy(1,2) yx(1) by (simp add: nth_append)
qed

theorem give_Eulerian_Lagrangian_Distance_periodic_witness:
  "\<exists>r s'. give_Eulerian_Lagrangian_Distance 0 1 4
        \<lparr>heap = [Mat float64 2 [[0, 3]], Mat float64 2 [[1, 0]]], stdout = []\<rparr> = (Inr r, s')
      \<and> nd_values (heap s' ! r) = [1, 1]"
  using give_Eulerian_Lagrangian_Distance_periodic
    [of 0 "\<lparr>heap = [Mat float64 2 [[0, 3]], Mat float64 2 [[1, 0]]], stdout = []\<rparr>" 1 4]
  apply (simp add: Let_def)
  apply (elim exE conjE)
  apply (rule_tac x=r in exI)
  apply (rule_tac x=s' in exI)
  apply simp
  apply (rule nth_equalityI)
   apply simp
  apply (simp add: less_Suc_eq)
  by (metis One_nat_def nth_Cons_0 nth_Cons_Suc)

section \<open>Frame rules\<close>

lemma pres_return: "Q x \<Longrightarrow> pres B W (st_return x) Q"
  by (simp add: pres_def st_return_def)

lemma pres_lift: "(\<And>x. r = Inr x \<Longrightarrow> Q x) \<Longrightarrow> pres B W (st_lift r) Q"
  by (simp add: pres_def st_lift_def)

lemma pres_lift_any: "pres B W (st_lift r) (\<lambda>_. True)"
  by (simp add: pres_def st_lift_def)

lemma pres_alloc: "pres B W (st_alloc a) (\<lambda>r. B \<le> r)"
  by (auto simp: pres_def st_alloc_def nth_append)

lemma pres_get: "pres B W (st_get a) (\<lambda>_. True)"
  by (auto simp: pres_def st_get_def split: if_splits)

lemma pres_put: "B \<le> a \<or> a \<in> W \<Longrightarrow> pres B W (st_put a v) (\<lambda>_. True)"
  by (auto simp: pres_def st_put_def nth_list_update split: if_splits)

lemma pres_print: "pres B W (st_print msg) (\<lambda>_. True)"
  by (auto simp: pres_def st_print_def)

lemma pres_bind:
  assumes "pres B W m Q" and "\<And>x. Q x \<Longrightarrow> pres B W (k x) R"
  shows "pres B W (st_bind m k) R"
  unfolding pres_def
proof (intro allI impI)
  fix s r s' assume B: "B \<le> length (heap s)" and run: "st_bind m k s = (r, s')"
  obtain r1 s1 where m: "m s = (r1, s1)" by (cases "m s")
  have m1: "length (heap s) \<le> length (heap s1)" "\<forall>a<B. a \<notin> W \<longrightarrow> heap s1 ! a = heap s ! a"
    "\<forall>x. r1 = Inr x \<longrightarrow> Q x"
    using assms(1) B m unfolding pres_def by blast+
  show "length (heap s) \<le> length (heap s') \<and> (\<forall>a<B. a \<notin> W \<longrightarrow> heap s' ! a = heap s ! a)
      \<and> (\<forall>x. r = Inr x \<longrightarrow> R x)"
  proof (cases r1)
    case (Inl e)
    then show ?thesis using run m m1 by (auto simp: st_bind_def)
  next
    case (Inr x)
    then have k: "k x s1 = (r, s')" using run m by (simp add: st_bind_def)
    have "pres B W (k x) R" using assms(2) m1(3) Inr by simp
    moreover have "B \<le> length (heap s1)" using B m1(1) by simp
    ultimately have "length (heap s1) \<le> length (heap s')
      \<and> (\<forall>a<B. a \<notin> W \<longrightarrow> heap s' ! a = heap s1 ! a) \<and> (\<forall>x. r = Inr x \<longrightarrow> R x)"
      using k unfolding pres_def by blast
    then show ?thesis using m1 by auto
  qed
qed

lemma pres_weaken:
  assumes "pres B W m Q" and "\<And>x. Q x \<Longrightarrow> Q' x"
  shows "pres B W m Q'"
  unfolding pres_def
proof (intro allI impI)
  fix s r s' assume "B \<le> length (heap s)" "m s = (r, s')"
  with assms(1) have "length (heap s) \<le> length (heap s')"
    "\<forall>a<B. a \<notin> W \<longrightarrow> heap s' ! a = heap s ! a" "\<forall>x. r = Inr x \<longrightarrow> Q x"
    unfolding pres_def by blast+
  then show "length (heap s) \<le> length (heap s') \<and> (\<forall>a<B. a \<notin> W \<longrightarrow> heap s' ! a = heap s ! a)
      \<and> (\<forall>x. r = Inr x \<longrightarrow> Q' x)"
    using assms(2) by simp
qed

lemma pres_any: "pres B W m Q \<Longrightarrow> pres B W m (\<lambda>_. True)"
  by (erule pres_weaken) simp

lemma pres_update: "B \<le> a \<or> a \<in> W \<Longrightarrow> pres B W (st_update a f) (\<lambda>_. True)"
  unfolding st_update_def
  by (intro pres_bind[OF pres_get] pres_bind[OF pres_lift_any] pres_put)

lemma pres_for:
  assumes "\<And>i. pres B W (body i) (\<lambda>_. True)"
  shows "pres B W (st_for ns body) (\<lambda>_. True)"
proof (induction ns)
  case Nil
  show ?case by (simp add: pres_return)
next
  case (Cons i ns)
  show ?case unfolding st_for.simps
    by (rule pres_bind[OF assms]) (rule Cons.IH)
qed

lemma pres_Delta: "pres B W (give_Delta_Kernel x dx) (\<lambda>r. B \<le> r)"
  unfolding give_Delta_Kernel_def Let_def
  apply (rule pres_bind[OF pres_get])
  apply (rule pres_bind[OF pres_alloc])
  apply (rule pres_bind[OF pres_lift_any])
  apply (simp only: split_paired_all case_prod_conv)
  apply (rule pres_bind[where Q="\<lambda>_. True"])
   apply (rule pres_for)
   apply (rule pres_for)
   apply (rule pres_bind[OF pres_get])
   apply (rule pres_bind[OF pres_lift_any])
   apply (auto intro!: pres_bind[OF pres_lift_any] pres_update pres_return)
  done



lemma pres_if:
  "(c \<Longrightarrow> pres B W m Q) \<Longrightarrow> (\<not> c \<Longrightarrow> pres B W n Q) \<Longrightarrow> pres B W (if c then m else n) Q"
  by simp

lemma pres_st_assign: "B \<le> a \<or> a \<in> W \<Longrightarrow> pres B W (st_assign a store rhs) (\<lambda>_. True)"
  unfolding st_assign_def by (intro pres_bind[OF pres_lift_any] pres_update)

lemmas pres_steps =
  pres_bind[OF pres_get] pres_bind[OF pres_alloc] pres_bind[OF pres_lift_any]
  pres_bind[OF pres_print] pres_bind[OF pres_update] pres_bind[OF pres_st_assign]
  pres_update pres_st_assign pres_return pres_alloc pres_print pres_if

lemma pres_Distance: "pres B W (give_Eulerian_Lagrangian_Distance x y L) (\<lambda>r. B \<le> r)"
  unfolding give_Eulerian_Lagrangian_Distance_def
  by (intro pres_steps) simp

lemma pres_1D: "pres B W (give_1D_NonZero_Delta_Indices p N dx supp) (\<lambda>r. B \<le> r)"
  unfolding give_1D_NonZero_Delta_Indices_def
  apply (intro pres_steps pres_bind[OF pres_update])
   apply simp_all
  done

lemma pres_XY:
  "pres B W (give_NonZero_Delta_Indices_XY xLag yLag Nx Ny dx dy supp) (\<lambda>(a, b). B \<le> a \<and> B \<le> b)"
  unfolding give_NonZero_Delta_Indices_XY_def
  apply (intro pres_steps pres_bind[OF pres_1D])
  apply simp_all
  done

lemma pres_stencil: "pres B W (stencil u yInds xInds delta_X delta_Y) (\<lambda>r. B \<le> r)"
  unfolding stencil_def by (intro pres_steps)

lemma pres_row_sums_times: "pres B W (row_sums_times m a) (\<lambda>r. B \<le> r)"
  unfolding row_sums_times_def by (intro pres_steps)

lemma pres_Perturbed:
  "pres B W (give_Me_Perturbed_Distance u v dx dy delta_X delta_Y xInds yInds)
     (\<lambda>(a, b). B \<le> a \<and> B \<le> b)"
  unfolding give_Me_Perturbed_Distance_def
  apply (intro pres_bind[OF pres_stencil] pres_bind[OF pres_row_sums_times] pres_return)
  apply simp
  done

lemma pres_mod_array: "pres B W (mod_array a L) (\<lambda>r. B \<le> r)"
  unfolding mod_array_def by (intro pres_steps)

lemma pres_resize: "pres B W (resize a n) (\<lambda>r. B \<le> r)"
  unfolding resize_def by (intro pres_steps)

lemma pres_gather: "pres B W (gather x inds) (\<lambda>r. B \<le> r)"
  unfolding gather_def by (intro pres_steps)

lemma pres_advance: "pres B W (advance p dt move) (\<lambda>r. B \<le> r)"
  unfolding advance_def by (intro pres_steps)

lemma pres_Move_Lagrangian:
  "pres B W (please_Move_Lagrangian_Point_Positions u v xL_P yL_P xL_H yL_H x y dt grid porous_Yes)
     (\<lambda>(a, b). B \<le> a \<and> B \<le> b)"
  unfolding please_Move_Lagrangian_Point_Positions_def
  apply (rule pres_bind[OF pres_XY])
  apply (simp only: split_paired_all case_prod_conv)
  apply (intro pres_bind[OF pres_mod_array] pres_bind[OF pres_resize] pres_bind[OF pres_gather]
      pres_bind[OF pres_Distance] pres_bind[OF pres_Delta] pres_bind[OF pres_Perturbed])
  apply (simp only: split_paired_all case_prod_conv)
  apply (intro pres_bind[OF pres_advance])
  apply (auto intro!: pres_bind[OF pres_mod_array] pres_return)
  done



lemma pres_D: "pres B W (D u dz string) (\<lambda>r. B \<le> r)"
  unfolding D_def Let_def
  apply (rule pres_bind[OF pres_get])
  apply (rule pres_bind[OF pres_alloc])
  apply (rule pres_bind[where Q="\<lambda>_. True"])
   apply (intro pres_steps; simp)
  apply (rule pres_return)
  apply assumption
  done

lemma pres_DD: "pres B W (DD u dz string) (\<lambda>r. B \<le> r)"
  unfolding DD_def Let_def
  apply (rule pres_bind[OF pres_get])
  apply (rule pres_bind[OF pres_alloc])
  apply (rule pres_bind[where Q="\<lambda>_. True"])
   apply (intro pres_steps; simp)
  apply (rule pres_return)
  apply assumption
  done

lemma pres_Adv_Diff:
  "pres B W (please_Update_Adv_Diff_Concentration C dt dx dy uX uY k) (\<lambda>r. B \<le> r)"
  unfolding please_Update_Adv_Diff_Concentration_def
  by (intro pres_bind[OF pres_D] pres_bind[OF pres_DD] pres_steps) simp

lemma pres_move_column:
  "pres B (insert mass_info W) (move_column mass_info j dt_step mVelocity k) (\<lambda>_. True)"
  unfolding move_column_def by (intro pres_steps) simp

lemma pres_Move_Massive:
  "pres B (insert mass_info W) (please_Move_Massive_Boundary dt_step mass_info mVelocity)
     (\<lambda>(m, old). m = mass_info \<and> B \<le> old)"
  unfolding please_Move_Massive_Boundary_def
  by (intro pres_steps pres_bind[OF pres_move_column]) simp

lemma assign_velocity_column_fails: "assign_velocity_column j v s = (Inl NameError, s)"
  by (simp add: assign_velocity_column_def global_array_def module_globals_def st_bind_lift_Inl)

lemma pres_velocity_rhs:
  "pres B W (velocity_rhs dt_step mass_info mVelocity F_Mass_Bnd d ids j gravity) (\<lambda>_. True)"
  unfolding velocity_rhs_def
  by (intro pres_steps) (auto split: option.splits intro!: pres_steps pres_lift_any)

lemma pres_assign: "pres B W (assign_velocity_column j v) (\<lambda>_. False)"
  by (simp add: pres_def assign_velocity_column_fails)

lemma pres_Update_Velocity:
  "pres B W (please_Update_Massive_Boundary_Velocity dt_step mass_info mVelocity F_Mass_Bnd
      gravity_Info) (\<lambda>_. False)"
  unfolding please_Update_Massive_Boundary_Velocity_def Let_def
  apply (intro pres_steps)
  apply (auto intro!: pres_bind[OF pres_velocity_rhs] pres_bind[OF pres_assign])
  done

lemmas run_defs = st_bind_def st_get_def st_alloc_def st_put_def st_lift_def st_update_def
  st_return_def st_print_def err_bind_def

section \<open>The delta kernel outside its support\<close>

text \<open>
  Claim C1 at the distance \<open>3 dx\<close>, where the kernel is 0: no branch of the loop writes
  the entry, and the function returns the scaled distance 3 that it computed first.
\<close>

theorem give_Delta_Kernel_far:
  "give_Delta_Kernel 0 1 s_far
     = (Inr 1, \<lparr>heap = [Mat float64 1 [[3]], Mat float64 1 [[3]]], stdout = []\<rparr>)"
  unfolding s_far_def give_Delta_Kernel_def
  by (simp add: run_defs Let_def py_index_def)

section \<open>The velocity of the massive points\<close>

lemma velocity_rhs_float:
  "fst (velocity_rhs dt_step mass_info mVelocity F_Mass_Bnd float64 ids j gravity s) \<noteq> Inr v"
  unfolding velocity_rhs_def
  by (cases "heap s ! F_Mass_Bnd")
     (auto simp: run_defs split: prod.splits sum.splits option.splits if_splits)

text \<open>No call of \<open>please_Update_Massive_Boundary_Velocity\<close> returns: the name
  \<open>mVelocity_h\<close> is not bound.\<close>

lemma please_Update_Massive_Boundary_Velocity_raises:
  "fst (please_Update_Massive_Boundary_Velocity dt_step mass_info mVelocity F_Mass_Bnd
          gravity_Info s) \<noteq> Inr r"
  using pres_Update_Velocity[of "length (heap s)" "{}" dt_step mass_info mVelocity F_Mass_Bnd
      gravity_Info]
  unfolding pres_def by (metis order_refl prod.collapse)

text \<open>
  Claim C2 at its own example (one point of mass 2, no force, no gravity, velocity (0, 0),
  \<open>dt = 0.1\<close>): the index array \<open>ids\<close> is a column of the float array \<open>mass_info\<close>, and
  indexing \<open>F_Mass_Bnd\<close> with it raises IndexError. No velocity is returned.
\<close>

theorem please_Update_Massive_Boundary_Velocity_example:
  "please_Update_Massive_Boundary_Velocity (1 / 10) 0 1 2 3 s_mass = (Inl IndexError, s_mass)"
  unfolding s_mass_def please_Update_Massive_Boundary_Velocity_def velocity_rhs_def
  by (simp add: run_defs Let_def py_index_def)

section \<open>An axis that is neither x nor y\<close>

lemma D_other_axis:
  assumes "u < length (heap s)" "string \<noteq> ''x''" "string \<noteq> ''y''"
  shows "D u dz string s =
     (Inr (length (heap s)),
      s\<lparr>heap := heap s @ [np_zeros (shape0 (heap s ! u)) (shape0 (heap s ! u))],
        stdout := stdout s @
          [replicate 3 newline @ '' ERROR IN FUNCTION D FOR COMPUTING 1ST DERIVATIVE'' @ [newline],
           ''Need to specify which desired derivative, x or y.'' @ replicate 3 newline]\<rparr>)"
  using assms unfolding D_def
  by (simp add: Let_def st_bind_def st_print_def st_return_def st_get_def st_alloc_def)

lemma DD_other_axis:
  assumes "u < length (heap s)" "string \<noteq> ''x''" "string \<noteq> ''y''"
  shows "DD u dz string s =
     (Inr (length (heap s)),
      s\<lparr>heap := heap s @ [np_zeros (shape0 (heap s ! u)) (shape0 (heap s ! u))],
        stdout := stdout s @
          [replicate 3 newline @ '' ERROR IN FUNCTION DD FOR COMPUTING 2ND DERIVATIVE'' @ [newline],
           ''Need to specify which desired derivative, x or y.'' @ replicate 3 newline]\<rparr>)"
  using assms unfolding DD_def
  by (simp add: Let_def st_bind_def st_print_def st_return_def st_get_def st_alloc_def)

text \<open>
  Claim C4 fails: with the axis \<open>z\<close> on a 2 x 2 field, \<open>D\<close> and \<open>DD\<close> do not raise; each
  returns a reference to a new array.
\<close>

theorem D_DD_other_axis_returns:
  "fst (D 0 1 ''z'' s_field) = Inr 1 \<and> fst (DD 0 1 ''z'' s_field) = Inr 1"
  by (simp add: D_other_axis DD_other_axis s_field_def)

text \<open>
  Claim C4 as amended. For every field \<open>u\<close>, every \<open>dz\<close> and every axis other than \<open>x\<close> and
  \<open>y\<close>, \<open>D\<close> and \<open>DD\<close> print two lines that name the function and ask for the axis
  \<open>x\<close> or \<open>y\<close>, and return normally: the result is a new array of zeros with as many rows
  and columns as \<open>u\<close> has rows. No array of the store is changed.
\<close>

theorem D_DD_other_axis:
  assumes "u < length (heap s)" "string \<noteq> ''x''" "string \<noteq> ''y''"
  shows "\<exists>n msg msg'.
      n = shape0 (heap s ! u)
    \<and> D u dz string s =
        (Inr (length (heap s)),
         s\<lparr>heap := heap s @ [Mat float64 n (replicate n (replicate n 0))],
           stdout := stdout s @ [msg, ''Need to specify which desired derivative, x or y.''
                                        @ replicate 3 newline]\<rparr>)
    \<and> DD u dz string s =
        (Inr (length (heap s)),
         s\<lparr>heap := heap s @ [Mat float64 n (replicate n (replicate n 0))],
           stdout := stdout s @ [msg', ''Need to specify which desired derivative, x or y.''
                                        @ replicate 3 newline]\<rparr>)
    \<and> msg = replicate 3 newline @ '' ERROR IN FUNCTION D FOR COMPUTING 1ST DERIVATIVE'' @ [newline]
    \<and> msg' = replicate 3 newline @ '' ERROR IN FUNCTION DD FOR COMPUTING 2ND DERIVATIVE''
              @ [newline]"
  using D_other_axis[OF assms] DD_other_axis[OF assms] by (simp add: np_zeros_def)

theorem D_DD_other_axis_witness:
  "fst (D 0 1 ''z'' s_field) = Inr 1
   \<and> heap (snd (D 0 1 ''z'' s_field)) ! 1 = Mat float64 2 [[0, 0], [0, 0]]
   \<and> length (stdout (snd (DD 0 1 ''z'' s_field))) = 2"
  using D_DD_other_axis[of 0 s_field "''z''" 1]
  by (auto simp: s_field_def numeral_2_eq_2)

section \<open>What the functions leave unchanged\<close>

lemma presD:
  "pres B W m Q \<Longrightarrow> B \<le> length (heap s) \<Longrightarrow> m s = (r, s') \<Longrightarrow>
     length (heap s) \<le> length (heap s')
   \<and> (\<forall>a<B. a \<notin> W \<longrightarrow> heap s' ! a = heap s ! a)
   \<and> (\<forall>x. r = Inr x \<longrightarrow> Q x)"
  unfolding pres_def by blast

lemma st_bind_Inr:
  "st_bind m k s = (Inr y, s') \<Longrightarrow> \<exists>x s1. m s = (Inr x, s1) \<and> k x s1 = (Inr y, s')"
  by (auto simp: st_bind_def split: prod.splits sum.splits)

lemma st_update_length:
  "st_update a f s = (r, s') \<Longrightarrow> length (heap s') = length (heap s)"
  by (auto simp: run_defs split: if_splits sum.splits)

lemma move_column_length:
  "move_column mi j dt mv k s = (r, s') \<Longrightarrow> length (heap s') = length (heap s)"
  unfolding move_column_def
  by (auto simp: st_bind_def st_get_def st_lift_def dest: st_update_length
      split: if_splits sum.splits prod.splits)

lemma take_cols2_Inr:
  assumes "take_cols2 a 1 2 = Inr b"
  shows "\<exists>d c M. a = Mat d c M \<and> 3 \<le> c \<and> b = Mat d 2 (map (\<lambda>r. [r ! 1, r ! 2]) M)"
  using assms by (cases a) (auto simp: py_index_def err_bind_def split: if_splits)

text \<open>What a call of \<open>please_Move_Massive_Boundary\<close> that returns has returned.\<close>

lemma please_Move_Massive_Boundary_returns:
  assumes "please_Move_Massive_Boundary dt_step mass_info mVelocity s = (Inr (m, old), s')"
  shows "m = mass_info \<and> old = length (heap s) \<and> length (heap s') = length (heap s) + 1
       \<and> (\<exists>d c M. heap s ! mass_info = Mat d c M \<and> 3 \<le> c
             \<and> heap s' ! old = Mat d 2 (map (\<lambda>r. [r ! 1, r ! 2]) M))"
proof -
  from assms obtain mi arr s1 s2 where
    g: "st_get mass_info s = (Inr mi, s)" and
    t: "take_cols2 mi 1 2 = Inr arr" and
    c1: "move_column mass_info 1 dt_step mVelocity 0 (s\<lparr>heap := heap s @ [arr]\<rparr>) = (Inr (), s1)" and
    c2: "move_column mass_info 2 dt_step mVelocity 1 s1 = (Inr (), s2)" and
    r: "m = mass_info" "old = length (heap s)" "s' = s2"
    unfolding please_Move_Massive_Boundary_def
    by (auto dest!: st_bind_Inr simp: st_get_def st_lift_def st_alloc_def st_return_def
        split: if_splits)
  from g have lt: "mass_info < length (heap s)" and mi: "mi = heap s ! mass_info"
    by (auto simp: st_get_def split: if_splits)
  let ?B = "Suc (length (heap s))"
  let ?s0 = "s\<lparr>heap := heap s @ [arr]\<rparr>"
  have l1: "length (heap s1) = ?B"
    using move_column_length[OF c1] by simp
  have l2: "length (heap s2) = ?B"
    using move_column_length[OF c2] l1 by simp
  have "heap s1 ! length (heap s) = heap ?s0 ! length (heap s)"
    using presD[OF pres_move_column[of ?B mass_info "{}"] _ c1] lt by simp
  moreover have "heap s2 ! length (heap s) = heap s1 ! length (heap s)"
    using presD[OF pres_move_column[of ?B mass_info "{}"] _ c2] lt l1 by simp
  ultimately have "heap s2 ! length (heap s) = arr"
    by simp
  with take_cols2_Inr[OF t] r l2 mi show ?thesis
    by auto
qed

lemma move_column_run:
  assumes "mi < length (heap s)" "mv < length (heap s)"
    and "heap s ! mi = Mat float64 c M" "list_all (\<lambda>r. length r = c) M" "j < c"
    and "heap s ! mv = Mat d' c' V" "k < c'" "length V = length M"
  shows "move_column mi (int j) dt mv (int k) s
           = (Inr (), s\<lparr>heap := (heap s)[mi := Mat float64 c
                                  (map2 (\<lambda>r w. r[j := r ! j + dt * w ! k]) M V)]\<rparr>)"
proof -
  have "map2 (\<lambda>r x. r[j := x]) M (map2 (+) (map (\<lambda>r. r ! j) M) (map ((*) dt) (map (\<lambda>r. r ! k) V)))
      = map2 (\<lambda>r w. r[j := r ! j + dt * w ! k]) M V"
    using assms(8) by (intro nth_equalityI) simp_all
  then show ?thesis
    unfolding move_column_def using assms
    by (simp add: run_defs py_index_def vop_same fit_def cast_def)
qed

text \<open>The call on a float table and a separate table of velocities.\<close>

lemma please_Move_Massive_Boundary_run:
  assumes "mass_info < length (heap s)" "mVelocity < length (heap s)" "mass_info \<noteq> mVelocity"
    and "heap s ! mass_info = Mat float64 c M" "list_all (\<lambda>r. length r = c) M" "3 \<le> c"
    and "heap s ! mVelocity = Mat d' c' V" "list_all (\<lambda>r. length r = c') V" "2 \<le> c'"
    and "length V = length M"
  shows "\<exists>massLagsOld s'.
           please_Move_Massive_Boundary dt_step mass_info mVelocity s
             = (Inr (mass_info, massLagsOld), s')
         \<and> massLagsOld = length (heap s) \<and> length (heap s') = length (heap s) + 1
         \<and> heap s' ! massLagsOld = Mat float64 2 (map (\<lambda>r. [r ! 1, r ! 2]) M)
         \<and> heap s' ! mass_info = Mat float64 c
              (map2 (\<lambda>r w. r[1 := r ! 1 + dt_step * w ! 0, 2 := r ! 2 + dt_step * w ! 1]) M V)"
proof -
  let ?old = "Mat float64 2 (map (\<lambda>r. [r ! 1, r ! 2]) M)"
  let ?s1 = "s\<lparr>heap := heap s @ [?old]\<rparr>"
  let ?M1 = "map2 (\<lambda>r w. r[1 := r ! 1 + dt_step * w ! 0]) M V"
  let ?s2 = "?s1\<lparr>heap := (heap ?s1)[mass_info := Mat float64 c ?M1]\<rparr>"
  let ?M2 = "map2 (\<lambda>r w. r[2 := r ! 2 + dt_step * w ! 1]) ?M1 V"
  let ?s3 = "?s2\<lparr>heap := (heap ?s2)[mass_info := Mat float64 c ?M2]\<rparr>"
  have c1: "move_column mass_info (int 1) dt_step mVelocity (int 0) ?s1 = (Inr (), ?s2)"
    using assms by (intro move_column_run[where d' = d' and c' = c']) (simp_all add: nth_append)
  have wf1: "list_all (\<lambda>r. length r = c) ?M1"
    using assms(5) by (auto simp: list_all_iff elim!: in_set_zipE)
  have c2: "move_column mass_info (int 2) dt_step mVelocity (int 1) ?s2 = (Inr (), ?s3)"
    using assms wf1
    by (intro move_column_run[where d' = d' and c' = c']) (simp_all add: nth_append)
  have run: "please_Move_Massive_Boundary dt_step mass_info mVelocity s
             = (Inr (mass_info, length (heap s)), ?s3)"
    unfolding please_Move_Massive_Boundary_def using assms(1,4,6) c1 c2
    by (simp add: st_bind_get st_bind_lift_Inr st_bind_alloc st_bind_ok st_return_def
        py_index_def err_bind_def)
  have "?M2 = map2 (\<lambda>r w. r[1 := r ! 1 + dt_step * w ! 0, 2 := r ! 2 + dt_step * w ! 1]) M V"
    using assms(10) by (intro nth_equalityI) simp_all
  then show ?thesis
    using run assms(1) by (simp add: nth_append)
qed


text \<open>
  Claim C3 fails: \<open>please_Move_Massive_Boundary\<close> changes the array \<open>mass_info\<close> it is given.
  Here the point at (1, 2) moves with the velocity (1, 1) for the time 1; after the call
  the caller's array holds the position (2, 3).
\<close>

lemma please_Move_Massive_Boundary_example:
  "please_Move_Massive_Boundary 1 0 1 s_moving
     = (Inr (0, 2), \<lparr>heap = [Mat float64 5 [[0, 2, 3, 0, 1]], Mat float64 2 [[1, 1]],
                             Mat float64 2 [[1, 2]]], stdout = []\<rparr>)"
  unfolding s_moving_def please_Move_Massive_Boundary_def move_column_def
  by (simp add: run_defs Let_def py_index_def vop_def bdim_def stretch_def fit_def cast_def)

theorem please_Move_Massive_Boundary_changes_mass_info:
  "heap (snd (please_Move_Massive_Boundary 1 0 1 s_moving)) ! 0 \<noteq> heap s_moving ! 0"
  unfolding please_Move_Massive_Boundary_example by (simp add: s_moving_def)

text \<open>
  Claim C3 as amended. Whether it returns or raises, \<open>please_Move_Massive_Boundary\<close>
  changes no array of the store except \<open>mass_info\<close>. When it returns, it returns the
  reference \<open>mass_info\<close> it was given and a reference to one new array, the only cell the
  store has gained, which holds the columns 1 and 2 of \<open>mass_info\<close> as they were before the
  call. For a float table \<open>mass_info\<close> with at least the columns 0 to 2 and a separate
  table \<open>mVelocity\<close> with at least the columns 0 and 1 and as many rows, the call returns
  and has written the new positions into \<open>mass_info\<close>: every row has now \<open>x + dt * vx\<close> in
  column 1 and \<open>y + dt * vy\<close> in column 2.
  \<open>please_Update_Massive_Boundary_Velocity\<close> changes no array of the store.
\<close>

theorem massive_boundary_frame:
  assumes "please_Move_Massive_Boundary dt_step mass_info mVelocity s = (r, s')"
    and "please_Update_Massive_Boundary_Velocity dt_step mass_info mVelocity F_Mass_Bnd
           gravity_Info s = (r2, s2)"
  shows "(\<forall>a < length (heap s). a \<noteq> mass_info \<longrightarrow> heap s' ! a = heap s ! a)
       \<and> (\<forall>m old. r = Inr (m, old) \<longrightarrow>
             m = mass_info \<and> old = length (heap s) \<and> length (heap s') = length (heap s) + 1
           \<and> (\<exists>d c M. heap s ! mass_info = Mat d c M \<and> 3 \<le> c
                 \<and> heap s' ! old = Mat d 2 (map (\<lambda>r. [r ! 1, r ! 2]) M)))
       \<and> (mass_info < length (heap s) \<and> mVelocity < length (heap s) \<and> mass_info \<noteq> mVelocity
           \<and> heap s ! mass_info = Mat float64 c M \<and> list_all (\<lambda>r. length r = c) M \<and> 3 \<le> c
           \<and> heap s ! mVelocity = Mat d' c' V \<and> list_all (\<lambda>r. length r = c') V \<and> 2 \<le> c'
           \<and> length V = length M \<longrightarrow>
             r = Inr (mass_info, length (heap s))
           \<and> heap s' ! mass_info = Mat float64 c
               (map2 (\<lambda>r w. r[1 := r ! 1 + dt_step * w ! 0, 2 := r ! 2 + dt_step * w ! 1]) M V))
       \<and> (\<forall>a < length (heap s). heap s2 ! a = heap s ! a)"
proof (intro conjI impI allI)
  from presD[OF pres_Move_Massive[of "length (heap s)" mass_info "{}"] le_refl assms(1)]
  show "\<And>a. a < length (heap s) \<Longrightarrow> a \<noteq> mass_info \<Longrightarrow> heap s' ! a = heap s ! a"
    by simp
next
  fix m old
  assume "r = Inr (m, old)"
  with assms(1) have run: "please_Move_Massive_Boundary dt_step mass_info mVelocity s
                             = (Inr (m, old), s')"
    by simp
  from please_Move_Massive_Boundary_returns[OF run]
  show "m = mass_info" and "old = length (heap s)"
    and "length (heap s') = length (heap s) + 1"
    and "\<exists>d c M. heap s ! mass_info = Mat d c M \<and> 3 \<le> c
           \<and> heap s' ! old = Mat d 2 (map (\<lambda>r. [r ! 1, r ! 2]) M)"
    by auto
next
  assume h: "mass_info < length (heap s) \<and> mVelocity < length (heap s) \<and> mass_info \<noteq> mVelocity
           \<and> heap s ! mass_info = Mat float64 c M \<and> list_all (\<lambda>r. length r = c) M \<and> 3 \<le> c
           \<and> heap s ! mVelocity = Mat d' c' V \<and> list_all (\<lambda>r. length r = c') V \<and> 2 \<le> c'
           \<and> length V = length M"
  from please_Move_Massive_Boundary_run[where dt_step = dt_step and s = s
      and mass_info = mass_info and mVelocity = mVelocity and c = c and M = M and d' = d'
      and c' = c' and V = V] h assms(1)
  show "r = Inr (mass_info, length (heap s))"
    and "heap s' ! mass_info = Mat float64 c
           (map2 (\<lambda>r w. r[1 := r ! 1 + dt_step * w ! 0, 2 := r ! 2 + dt_step * w ! 1]) M V)"
    by auto
next
  from presD[OF pres_Update_Velocity[of "length (heap s)" "{}"] le_refl assms(2)]
  show "\<And>a. a < length (heap s) \<Longrightarrow> heap s2 ! a = heap s ! a"
    by simp
qed

theorem massive_boundary_frame_witness:
  "fst (please_Move_Massive_Boundary 2 0 1 s_boundary) = Inr (0, 4)
 \<and> length (heap (snd (please_Move_Massive_Boundary 2 0 1 s_boundary))) = 5
 \<and> heap (snd (please_Move_Massive_Boundary 2 0 1 s_boundary)) ! 0
     = Mat float64 5 [[0, 3, 4, 0, 1]]
 \<and> heap (snd (please_Move_Massive_Boundary 2 0 1 s_boundary)) ! 1 = Mat float64 2 [[1, 1]]
 \<and> heap (snd (please_Move_Massive_Boundary 2 0 1 s_boundary)) ! 2 = Mat float64 2 [[0, 0]]
 \<and> heap (snd (please_Move_Massive_Boundary 2 0 1 s_boundary)) ! 3 = Vec float64 [0, 0, - 1]
 \<and> heap (snd (please_Move_Massive_Boundary 2 0 1 s_boundary)) ! 4 = Mat float64 2 [[1, 2]]
 \<and> heap (snd (please_Update_Massive_Boundary_Velocity 2 0 1 2 3 s_boundary)) ! 0
     = Mat float64 5 [[0, 1, 2, 0, 1]]
 \<and> heap (snd (please_Update_Massive_Boundary_Velocity 2 0 1 2 3 s_boundary)) ! 1
     = Mat float64 2 [[1, 1]]
 \<and> heap (snd (please_Update_Massive_Boundary_Velocity 2 0 1 2 3 s_boundary)) ! 2
     = Mat float64 2 [[0, 0]]
 \<and> heap (snd (please_Update_Massive_Boundary_Velocity 2 0 1 2 3 s_boundary)) ! 3
     = Vec float64 [0, 0, - 1]"
proof -
  let ?m = "please_Move_Massive_Boundary 2 0 1 s_boundary"
  let ?u = "please_Update_Massive_Boundary_Velocity 2 0 1 2 3 s_boundary"
  have h: "length (heap s_boundary) = 4" "heap s_boundary ! 0 = Mat float64 5 [[0, 1, 2, 0, 1]]"
    "heap s_boundary ! 1 = Mat float64 2 [[1, 1]]" "heap s_boundary ! 2 = Mat float64 2 [[0, 0]]"
    "heap s_boundary ! 3 = Vec float64 [0, 0, - 1]"
    by (simp_all add: s_boundary_def)
  note t = massive_boundary_frame[where s = s_boundary and dt_step = 2 and mass_info = 0
      and mVelocity = 1 and r = "fst ?m" and s' = "snd ?m" and ?r2.0 = "fst ?u"
      and ?s2.0 = "snd ?u" and F_Mass_Bnd = 2 and gravity_Info = 3
      and c = 5 and M = "[[0, 1, 2, 0, 1]]" and d' = float64 and c' = 2 and V = "[[1, 1]]",
      OF surjective_pairing surjective_pairing]
  note frame = t[THEN conjunct1, rule_format]
  note returned = t[THEN conjunct2, THEN conjunct1, rule_format]
  note moved = t[THEN conjunct2, THEN conjunct2, THEN conjunct1, rule_format]
  note update = t[THEN conjunct2, THEN conjunct2, THEN conjunct2, rule_format]
  have r: "fst ?m = Inr (0, 4)"
    and c0: "heap (snd ?m) ! 0 = Mat float64 5 [[0, 3, 4, 0, 1]]"
    using moved h by (simp_all add: numeral_2_eq_2)
  have len: "length (heap (snd ?m)) = 5" and c4: "heap (snd ?m) ! 4 = Mat float64 2 [[1, 2]]"
    using returned[OF r] h by (auto simp: numeral_2_eq_2)
  have c1: "heap (snd ?m) ! 1 = Mat float64 2 [[1, 1]]"
    using frame[of 1] h by simp
  have c2: "heap (snd ?m) ! 2 = Mat float64 2 [[0, 0]]"
    using frame[of 2] h by simp
  have c3: "heap (snd ?m) ! 3 = Vec float64 [0, 0, - 1]"
    using frame[of 3] h by simp
  have u0: "heap (snd ?u) ! 0 = Mat float64 5 [[0, 1, 2, 0, 1]]"
    using update[of 0] h by simp
  have u1: "heap (snd ?u) ! 1 = Mat float64 2 [[1, 1]]"
    using update[of 1] h by simp
  have u2: "heap (snd ?u) ! 2 = Mat float64 2 [[0, 0]]"
    using update[of 2] h by simp
  have u3: "heap (snd ?u) ! 3 = Vec float64 [0, 0, - 1]"
    using update[of 3] h by simp
  from r len c0 c1 c2 c3 c4 u0 u1 u2 u3 show ?thesis
    by (intro conjI)
qed

lemma mod_array_cell:
  "mod_array a L s = (Inr x, s') \<Longrightarrow>
     x = length (heap s) \<and> length (heap s') = Suc (length (heap s))"
  unfolding mod_array_def by (auto simp: run_defs split: if_splits)

lemma advance_cell:
  "advance p dt mv s = (Inr x, s') \<Longrightarrow>
     x = length (heap s) \<and> length (heap s') = Suc (length (heap s))"
  unfolding advance_def by (auto simp: run_defs split: if_splits sum.splits)

text \<open>The two arrays \<open>please_Move_Lagrangian_Point_Positions\<close> returns are the last two
  it makes.\<close>

lemma please_Move_Lagrangian_Point_Positions_cells:
  assumes "please_Move_Lagrangian_Point_Positions u v xL_P yL_P xL_H yL_H x y dt grid porous_Yes s
             = (Inr (xn, yn), s')"
  shows "xn < yn \<and> yn < length (heap s')"
proof -
  from assms obtain move_X move_Y s1 x1 s2 y1 s3 where
    a1: "advance xL_P dt move_X s1 = (Inr x1, s2)" and
    a2: "advance yL_P dt move_Y s2 = (Inr y1, s3)" and
    rest: "(if \<not> porous_Yes then
             st_bind (mod_array x1 (grid_Lx grid)) (\<lambda>xL_Next.
             st_bind (mod_array y1 (grid_Ly grid)) (\<lambda>yL_Next.
             st_return (xL_Next, yL_Next)))
           else st_return (x1, y1)) s3 = (Inr (xn, yn), s')"
    unfolding please_Move_Lagrangian_Point_Positions_def
    by (auto dest!: st_bind_Inr)
  show ?thesis
  proof (cases porous_Yes)
    case True
    with rest have "xn = x1" "yn = y1" "s' = s3"
      by (simp_all add: st_return_def)
    with advance_cell[OF a1] advance_cell[OF a2] show ?thesis
      by simp
  next
    case False
    with rest obtain s4 where
      m1: "mod_array x1 (grid_Lx grid) s3 = (Inr xn, s4)" and
      m2: "mod_array y1 (grid_Ly grid) s4 = (Inr yn, s')"
      by (auto dest!: st_bind_Inr simp: st_return_def)
    from mod_array_cell[OF m1] mod_array_cell[OF m2] show ?thesis
      by simp
  qed
qed

text \<open>The call on the example: it returns the cells 36 and 37 of a store of 38 arrays, and
  the point has not moved in the fluid at rest.\<close>

lemma moved_points_run:
  "fst moved_points = Inr (36, 37) \<and> length (heap (snd moved_points)) = 38
 \<and> heap (snd moved_points) ! 36 = Vec float64 [1 / 2]
 \<and> heap (snd moved_points) ! 37 = Vec float64 [1 / 2]"
  unfolding moved_points_def please_Move_Lagrangian_Point_Positions_def
    give_NonZero_Delta_Indices_XY_def give_1D_NonZero_Delta_Indices_def
    mod_array_def resize_def gather_def give_Eulerian_Lagrangian_Distance_def
    give_Delta_Kernel_def give_Me_Perturbed_Distance_def stencil_def row_sums_times_def
    advance_def s_points_def grid_small_def
  by (simp add: run_defs Let_def np_zeros_def py_index_def np_mod_def cast_def to_int64_def
      py_trunc_def bdim_def stretch_def vop_def mop_def iadd_def jit_sqrt_def fit_def
      power2_eq_square upt_rec numeral_2_eq_2)

text \<open>
  Claim C10. Whatever its arguments and whether it returns or raises,
  \<open>please_Move_Lagrangian_Point_Positions\<close> leaves every array of the store as it was:
  the velocity fields, the previous and the current positions and the grid coordinates
  among them. When it returns, the two references it returns are two different cells of
  the final store that did not exist before the call: two new arrays.
\<close>

theorem please_Move_Lagrangian_Point_Positions_frame:
  assumes "please_Move_Lagrangian_Point_Positions u v xL_P yL_P xL_H yL_H x y dt grid porous_Yes s
             = (r, s')"
  shows "(\<forall>a < length (heap s). a < length (heap s') \<and> heap s' ! a = heap s ! a)
       \<and> (\<forall>xL_Next yL_Next. r = Inr (xL_Next, yL_Next) \<longrightarrow>
             length (heap s) \<le> xL_Next \<and> xL_Next < yL_Next \<and> yL_Next < length (heap s'))"
proof (intro conjI allI impI)
  fix a assume "a < length (heap s)"
  with presD[OF pres_Move_Lagrangian[of "length (heap s)" "{}"] le_refl assms]
  show "a < length (heap s')" and "heap s' ! a = heap s ! a"
    by auto
next
  fix xL_Next yL_Next assume r: "r = Inr (xL_Next, yL_Next)"
  with presD[OF pres_Move_Lagrangian[of "length (heap s)" "{}"] le_refl assms]
  show "length (heap s) \<le> xL_Next"
    by auto
  from please_Move_Lagrangian_Point_Positions_cells[OF assms[unfolded r]]
  show "xL_Next < yL_Next" and "yL_Next < length (heap s')"
    by simp_all
qed

theorem please_Move_Lagrangian_Point_Positions_frame_witness:
  "fst moved_points = Inr (36, 37) \<and> length (heap s_points) = 8
 \<and> length (heap (snd moved_points)) = 38
 \<and> heap (snd moved_points) ! 36 = Vec float64 [1 / 2]
 \<and> heap (snd moved_points) ! 37 = Vec float64 [1 / 2]
 \<and> heap (snd moved_points) ! 0 = heap s_points ! 0 \<and> heap (snd moved_points) ! 1 = heap s_points ! 1
 \<and> heap (snd moved_points) ! 2 = heap s_points ! 2 \<and> heap (snd moved_points) ! 3 = heap s_points ! 3
 \<and> heap (snd moved_points) ! 4 = heap s_points ! 4 \<and> heap (snd moved_points) ! 5 = heap s_points ! 5
 \<and> heap (snd moved_points) ! 6 = heap s_points ! 6 \<and> heap (snd moved_points) ! 7 = heap s_points ! 7"
proof -
  have len: "length (heap s_points) = 8"
    by (simp add: s_points_def)
  have run: "please_Move_Lagrangian_Point_Positions 0 1 2 3 4 5 6 7 (1 / 100) grid_small False
               s_points = (fst moved_points, snd moved_points)"
    by (simp add: moved_points_def)
  note t = please_Move_Lagrangian_Point_Positions_frame[OF run]
  note frame = t[THEN conjunct1, rule_format, THEN conjunct2]
  from moved_points_run len frame[of 0] frame[of 1] frame[of 2] frame[of 3] frame[of 4]
    frame[of 5] frame[of 6] frame[of 7]
  show ?thesis
    by simp
qed

section \<open>Moving the massive points: correctness\<close>

text \<open>
  Claim C5. Let \<open>mass_info\<close> be a float table with at least the columns 0 to 2 and
  \<open>mVelocity\<close> another table with at least the columns 0 and 1 and as many rows. Then
  \<open>please_Move_Massive_Boundary\<close> returns the table \<open>mass_info\<close> and a new array; the new
  array holds the columns 1 and 2 of the table as they were before the call; and in the
  table every row has now \<open>x + dt * vx\<close> in column 1 and \<open>y + dt * vy\<close> in column 2, the
  plain sums with no reduction modulo the domain, and is otherwise as before.
\<close>

theorem please_Move_Massive_Boundary_positions:
  assumes "mass_info < length (heap s)" "mVelocity < length (heap s)" "mass_info \<noteq> mVelocity"
    and "heap s ! mass_info = Mat float64 c M" "list_all (\<lambda>r. length r = c) M" "3 \<le> c"
    and "heap s ! mVelocity = Mat d' c' V" "list_all (\<lambda>r. length r = c') V" "2 \<le> c'"
    and "length V = length M"
  shows "\<exists>massLagsOld s'.
           please_Move_Massive_Boundary dt_step mass_info mVelocity s
             = (Inr (mass_info, massLagsOld), s')
         \<and> massLagsOld = length (heap s) \<and> length (heap s') = length (heap s) + 1
         \<and> heap s' ! massLagsOld = Mat float64 2 (map (\<lambda>r. [r ! 1, r ! 2]) M)
         \<and> heap s' ! mass_info = Mat float64 c
              (map2 (\<lambda>r w. r[1 := r ! 1 + dt_step * w ! 0, 2 := r ! 2 + dt_step * w ! 1]) M V)"
  using assms by (rule please_Move_Massive_Boundary_run)

theorem please_Move_Massive_Boundary_positions_witness:
  "fst (please_Move_Massive_Boundary 1 0 1 s_moving) = Inr (0, 2)
 \<and> heap (snd (please_Move_Massive_Boundary 1 0 1 s_moving)) ! 2 = Mat float64 2 [[1, 2]]
 \<and> heap (snd (please_Move_Massive_Boundary 1 0 1 s_moving)) ! 0 = Mat float64 5 [[0, 2, 3, 0, 1]]"
  using please_Move_Massive_Boundary_positions[of 0 s_moving 1 5 "[[0, 1, 2, 0, 1]]" float64 2
      "[[1, 1]]" 1]
  by (auto simp: s_moving_def numeral_2_eq_2)

section \<open>Rules for runs that return\<close>

lemma runs_bind: "runs m s x s1 \<Longrightarrow> runs (k x) s1 y s2 \<Longrightarrow> runs (st_bind m k) s y s2"
  by (simp add: runs_def st_bind_def)

lemma runs_return: "runs (st_return x) s x s"
  by (simp add: runs_def st_return_def)


lemma runs_get: "a < length (heap s) \<Longrightarrow> heap s ! a = v \<Longrightarrow> runs (st_get a) s v s"
  by (simp add: runs_def st_get_def)

lemma runs_alloc: "runs (st_alloc v) s (length (heap s)) (s\<lparr>heap := heap s @ [v]\<rparr>)"
  by (simp add: runs_def st_alloc_def)

lemma runs_update:
  "a < length (heap s) \<Longrightarrow> f (heap s ! a) = Inr v \<Longrightarrow>
   runs (st_update a f) s () (s\<lparr>heap := (heap s)[a := v]\<rparr>)"
  by (simp add: runs_def st_update_def st_bind_def st_get_def st_lift_def st_put_def)

lemma runs_eq: "runs m s x s1 \<Longrightarrow> x = y \<Longrightarrow> s1 = s2 \<Longrightarrow> runs m s y s2"
  by simp

section \<open>Support indices: correctness\<close>

lemma tile_transpose: "np_transpose (np_tile (Vec d a) n 1) = Mat d n (map (replicate n) a)"
  by (simp add: map_replicate_const) (rule nth_equalityI, simp_all)

lemma mop_row:
  assumes "list_all (\<lambda>r. length r = c) A" "length b = c"
  shows "mop f c A c [b] = Inr (c, map (\<lambda>ra. map2 f ra b) A)"
proof -
  have 1: "bdim (length A) (length [b]) = Inr (length A)"
    by (simp add: bdim_def)
  have 2: "stretch (length A) [b] = replicate (length A) b"
    by (simp add: stretch_def)
  have "map2 (\<lambda>ra rb. map2 f (stretch c ra) (stretch c rb)) A (replicate (length A) b)
      = map (\<lambda>ra. map2 f ra b) A"
    using assms by (intro nth_equalityI) (simp_all add: list_all_length stretch_same)
  then show ?thesis
    using 1 2 by (simp add: mop_def err_bind_def bdim_def stretch_same)
qed

lemma iadd_row:
  assumes "list_all (\<lambda>r. length r = c) A" "length b = c"
  shows "iadd (Vec float64 b) (Mat float64 c A) = Inr (Mat float64 c (map (\<lambda>ra. map2 (+) ra b) A))"
  using assms by (simp add: iadd_def mop_row err_bind_def)

lemma give_1D_run:
  assumes "p < length (heap s)" "heap s ! p = Vec d ps"
  shows "\<exists>a1 a2. runs (give_1D_NonZero_Delta_Indices p N dx supp) s (length (heap s) + 2)
       (s\<lparr>heap := heap s @ [a1, a2,
           Mat float64 supp
             (map (\<lambda>p. map (\<lambda>j. np_mod (of_int \<lfloor>p / dx + 1\<rfloor> + (- real supp / 2 + 1 + real j) - 1)
                                 (real N)) [0..<supp]) ps)]\<rparr>)"
proof -
  let ?F = "\<lambda>p. real_of_int \<lfloor>p / dx + 1\<rfloor>"
  let ?G = "\<lambda>i. np_mod (i - 1) (real N)"
  let ?rhs = "map (\<lambda>j. - real supp / 2 + 1 + real j) [0..<supp]"
  let ?A1 = "nd_map ?F (Vec d ps)"
  let ?A2 = "np_transpose (np_tile ?A1 supp 1)"
  let ?R = "map (replicate supp) (map ?F ps)"
  let ?A2' = "Mat float64 supp (map (\<lambda>ra. map2 (+) ra ?rhs) ?R)"
  let ?A3 = "nd_map ?G ?A2'"
  let ?L = "length (heap s)"
  let ?s1 = "s\<lparr>heap := heap s @ [?A1]\<rparr>"
  let ?s2 = "s\<lparr>heap := heap s @ [?A1, ?A2]\<rparr>"
  let ?s3 = "s\<lparr>heap := heap s @ [?A1, ?A2']\<rparr>"
  let ?s4 = "s\<lparr>heap := heap s @ [?A1, ?A2', ?A3]\<rparr>"
  have f1: "runs (st_get p) s (Vec d ps) s"
    using assms by (rule runs_get)
  have f2: "runs (st_alloc ?A1) s ?L ?s1"
    by (rule runs_alloc)
  have f3: "runs (st_get ?L) ?s1 ?A1 ?s1"
    by (rule runs_get) simp_all
  have f4: "runs (st_alloc ?A2) ?s1 (?L + 1) ?s2"
    by (rule runs_eq[OF runs_alloc]) simp_all
  have A2: "?A2 = Mat float64 supp ?R"
    by (simp only: nd_map.simps tile_transpose)
  have wf: "list_all (\<lambda>r. length r = supp) ?R"
    by (simp add: list_all_iff)
  have i: "iadd (Vec float64 ?rhs) ?A2 = Inr ?A2'"
    unfolding A2 by (rule iadd_row[OF wf]) simp
  have f5: "runs (st_update (?L + 1) (iadd (Vec float64 ?rhs))) ?s2 () ?s3"
    by (rule runs_eq[OF runs_update[where v = ?A2']])
       (use i in \<open>simp_all add: nth_append list_update_append
          del: nd_map.simps np_tile.simps np_transpose.simps\<close>)
  have f6: "runs (st_get (?L + 1)) ?s3 ?A2' ?s3"
    by (rule runs_get) (simp_all add: nth_append)
  have f7: "runs (st_alloc ?A3) ?s3 (?L + 2) ?s4"
    by (rule runs_eq[OF runs_alloc]) simp_all
  have run: "runs (give_1D_NonZero_Delta_Indices p N dx supp) s (?L + 2) ?s4"
    unfolding give_1D_NonZero_Delta_Indices_def
    by (intro runs_bind[OF f1] runs_bind[OF f2] runs_bind[OF f3] runs_bind[OF f4]
        runs_bind[OF f5] runs_bind[OF f6] runs_bind[OF f7] runs_return)
  have "map (map ?G) (map (\<lambda>ra. map2 (+) ra ?rhs) ?R)
      = map (\<lambda>p. map (\<lambda>j. np_mod (?F p + (- real supp / 2 + 1 + real j) - 1)
                                 (real N)) [0..<supp]) ps"
    by (rule nth_equalityI, simp, simp, rule nth_equalityI, simp_all)
  then have "?A3 = Mat float64 supp
             (map (\<lambda>p. map (\<lambda>j. np_mod (?F p + (- real supp / 2 + 1 + real j) - 1)
                                 (real N)) [0..<supp]) ps)"
    by (simp only: nd_map.simps)
  then show ?thesis
    using run by metis
qed

lemma np_mod_int: "0 < N \<Longrightarrow> np_mod (of_int m) (real N) = of_int (m mod int N)"
proof -
  assume "0 < N"
  have "\<lfloor>(of_int m :: real) / real N\<rfloor> = m div int N"
    by (metis floor_divide_of_int_eq of_int_of_nat_eq)
  then have "np_mod (of_int m) (real N) = of_int m - of_int (int N) * of_int (m div int N)"
    by (simp add: np_mod_def)
  also have "\<dots> = of_int (m mod int N)"
    by (simp add: minus_div_mult_eq_mod[symmetric] mult.commute del: of_int_of_nat_eq)
  finally show ?thesis .
qed

lemma shifted_mod_distinct:
  assumes "supp \<le> N"
  shows "distinct (map (\<lambda>j. real_of_int ((b + int j) mod int N)) [0..<supp])"
proof -
  have "inj_on (\<lambda>j. real_of_int ((b + int j) mod int N)) {0..<supp}"
  proof (rule inj_onI)
    fix j1 j2 assume j: "j1 \<in> {0..<supp}" "j2 \<in> {0..<supp}"
      and eq: "real_of_int ((b + int j1) mod int N) = real_of_int ((b + int j2) mod int N)"
    then have "(b + int j1) mod int N = (b + int j2) mod int N" by simp
    then have "int N dvd (b + int j1) - (b + int j2)"
      by (simp add: mod_eq_dvd_iff)
    then have d: "int N dvd int j1 - int j2" by simp
    have "\<bar>int j1 - int j2\<bar> < int N" using j assms by auto
    with d have "int j1 - int j2 = 0"
      using zdvd_not_zless[of "\<bar>int j1 - int j2\<bar>" "int N"] by (cases "int j1 - int j2 = 0") auto
    then show "j1 = j2" by simp
  qed
  then show ?thesis by (simp add: distinct_map)
qed


lemma support_entry:
  assumes "even supp" "0 < N"
  shows "np_mod (of_int b + (- real supp / 2 + 1 + real j) - 1) (real N)
           = of_int ((b + (int j - int supp div 2 + 1) - 1) mod int N)"
proof -
  obtain h where h: "supp = 2 * h" using assms(1) by (elim evenE)
  have eq: "of_int b + (- real supp / 2 + 1 + real j) - 1
          = (of_int (b + (int j - int supp div 2 + 1) - 1) :: real)"
    by (simp add: h)
  show ?thesis
    unfolding eq by (rule np_mod_int[OF assms(2)])
qed

section \<open>Rules for computations that return\<close>

lemma total_bind:
  assumes "total P m Q" and "\<And>x. total (Q x) (k x) R"
  shows "total P (st_bind m k) R"
  unfolding total_def runs_def
proof (intro allI impI)
  fix s assume "P s"
  then obtain x s1 where 1: "m s = (Inr x, s1)" "Q x s1"
    using assms(1) unfolding total_def runs_def by blast
  obtain y s2 where 2: "k x s1 = (Inr y, s2)" "R y s2"
    using assms(2)[of x] 1(2) unfolding total_def runs_def by blast
  have "st_bind m k s = (Inr y, s2)"
    by (simp add: st_bind_def 1(1) 2(1))
  then show "\<exists>y s'. st_bind m k s = (Inr y, s') \<and> R y s'"
    using 2(2) by blast
qed

lemma total_pre: "(\<And>t. P t \<Longrightarrow> total (\<lambda>s. s = t) m Q) \<Longrightarrow> total P m Q"
  unfolding total_def by simp

lemma total_post:
  assumes "total P m Q" and "\<And>x s. Q x s \<Longrightarrow> Q' x s"
  shows "total P m Q'"
  unfolding total_def
proof (intro allI impI)
  fix s assume "P s"
  then obtain x s1 where "runs m s x s1" "Q x s1"
    using assms(1) unfolding total_def by blast
  then show "\<exists>x s'. runs m s x s' \<and> Q' x s'"
    using assms(2) by blast
qed

lemma total_call:
  assumes "total (\<lambda>s. s = t) m Q" and "\<And>x t'. Q x t' \<Longrightarrow> total (\<lambda>s. s = t') (k x) R"
  shows "total (\<lambda>s. s = t) (st_bind m k) R"
  by (rule total_bind[OF assms(1)]) (rule total_pre, rule assms(2))



lemma total_lift:
  assumes "r = Inr x" and "total (\<lambda>s. s = t) (k x) R"
  shows "total (\<lambda>s. s = t) (st_bind (st_lift r) k) R"
  using assms unfolding total_def runs_def by (simp add: st_bind_lift_Inr)





section \<open>Finite differences on a square field\<close>



































section \<open>One step of advection and diffusion\<close>


lemma nth_map2_map2:
  assumes "i < length A" "length B = length A" "j < length (A ! i)" "length (B ! i) = length (A ! i)"
  shows "map2 (map2 f) A B ! i ! j = f (A ! i ! j) (B ! i ! j)"
  using assms by simp














end
